theory Spec2Isabelle
  imports Main
begin

section \<open>JavaScript values\<close>

text \<open>
  The adapters receive credentials and platform payloads typed \<^verbatim>\<open>any\<close>: whatever the JSON
  column or the HTTP response held. They are modelled as JSON values extended with
  \<^verbatim>\<open>undefined\<close>. Numbers are the integers among the doubles (no fractions, no NaN or
  infinity as a stored value); an object is the list of its properties in the order they
  were written, a later binding of a name replacing an earlier one.
\<close>

datatype jsval =
    JUndefined
  | JNull
  | JBool bool
  | JNum int
  | JStr string
  | JArr "jsval list"
  | JObj "(string \<times> jsval) list"

datatype js_error = TypeError | Error string

text \<open>Truthiness, as \<^verbatim>\<open>!x\<close>, \<^verbatim>\<open>x || y\<close>, \<^verbatim>\<open>x && y\<close> and \<^verbatim>\<open>if (x)\<close> read it.\<close>

fun truthy :: "jsval \<Rightarrow> bool" where
  "truthy JUndefined = False"
| "truthy JNull = False"
| "truthy (JBool b) = b"
| "truthy (JNum n) = (n \<noteq> 0)"
| "truthy (JStr s) = (s \<noteq> [])"
| "truthy (JArr xs) = True"
| "truthy (JObj kvs) = True"

definition js_or :: "jsval \<Rightarrow> jsval \<Rightarrow> jsval" where
  "js_or a b = (if truthy a then a else b)"

text \<open>
  Property read \<^verbatim>\<open>v.k\<close> for the property names the adapters use (none of them is a
  built-in property of strings, numbers, booleans or arrays): reading from
  \<^verbatim>\<open>null\<close> or \<^verbatim>\<open>undefined\<close> throws a TypeError, reading from any other non-object
  gives \<^verbatim>\<open>undefined\<close>.
\<close>

fun get :: "jsval \<Rightarrow> string \<Rightarrow> js_error + jsval" where
  "get JUndefined k = Inl TypeError"
| "get JNull k = Inl TypeError"
| "get (JObj kvs) k = Inr (case map_of (rev kvs) k of None \<Rightarrow> JUndefined | Some v \<Rightarrow> v)"
| "get v k = Inr JUndefined"

text \<open>Optional chaining \<^verbatim>\<open>v?.k\<close>: \<^verbatim>\<open>undefined\<close> instead of the TypeError.\<close>

fun get_opt :: "jsval \<Rightarrow> string \<Rightarrow> jsval" where
  "get_opt JUndefined k = JUndefined"
| "get_opt JNull k = JUndefined"
| "get_opt (JObj kvs) k = (case map_of (rev kvs) k of None \<Rightarrow> JUndefined | Some v \<Rightarrow> v)"
| "get_opt v k = JUndefined"

text \<open>The \<^verbatim>\<open>length\<close> property and the element read \<^verbatim>\<open>v[0]\<close> of a truthy value.\<close>

fun js_length :: "jsval \<Rightarrow> js_error + jsval" where
  "js_length JUndefined = Inl TypeError"
| "js_length JNull = Inl TypeError"
| "js_length (JStr s) = Inr (JNum (int (length s)))"
| "js_length (JArr xs) = Inr (JNum (int (length xs)))"
| "js_length (JObj kvs) = Inr (case map_of (rev kvs) ''length'' of None \<Rightarrow> JUndefined | Some v \<Rightarrow> v)"
| "js_length v = Inr JUndefined"

fun js_index0 :: "jsval \<Rightarrow> js_error + jsval" where
  "js_index0 JUndefined = Inl TypeError"
| "js_index0 JNull = Inl TypeError"
| "js_index0 (JStr s) = Inr (case s of [] \<Rightarrow> JUndefined | c # _ \<Rightarrow> JStr [c])"
| "js_index0 (JArr xs) = Inr (case xs of [] \<Rightarrow> JUndefined | x # _ \<Rightarrow> x)"
| "js_index0 (JObj kvs) = Inr (case map_of (rev kvs) ''0'' of None \<Rightarrow> JUndefined | Some v \<Rightarrow> v)"
| "js_index0 v = Inr JUndefined"

subsection \<open>Numbers and the runtime\<close>

text \<open>
  A JavaScript number is an IEEE double. An integer of magnitude at most \<open>2^53\<close> is held
  exactly, so is a product or a sum of integers that stays within that magnitude, and
  \<^verbatim>\<open>toString()\<close> writes such a number in plain decimal notation. What the runtime does beyond
  that is not modelled but taken as a parameter, the fields of \<open>runtime\<close>:
  \<^item> \<open>rt_text x\<close>: what \<^verbatim>\<open>toString()\<close> writes for the double nearest to \<open>x\<close>, for \<open>x\<close>
    beyond \<open>2^53\<close> (rounded digits, exponent notation, \<^verbatim>\<open>Infinity\<close>);
  \<^item> \<open>rt_hasMore a b n v\<close>: the value of \<^verbatim>\<open>(a * b) + n < v\<close> when the product or the sum is
    beyond \<open>2^53\<close>;
  \<^item> \<open>rt_lt a v\<close> and \<open>rt_gt a v\<close>: the values of \<^verbatim>\<open>a < v\<close> and \<^verbatim>\<open>a > v\<close> when \<open>v\<close> converts to
    a number through a string that is not a plain decimal integer (hexadecimal, exponent,
    fraction, other white space, too many digits);
  \<^item> \<open>rt_type_error\<close>: the message the engine gives the TypeError thrown during the call.
\<close>

record runtime =
  rt_text :: "int \<Rightarrow> string"
  rt_hasMore :: "int \<Rightarrow> int \<Rightarrow> int \<Rightarrow> jsval \<Rightarrow> bool"
  rt_lt :: "int \<Rightarrow> jsval \<Rightarrow> bool"
  rt_gt :: "int \<Rightarrow> jsval \<Rightarrow> bool"
  rt_type_error :: string

definition safe_integer :: "int \<Rightarrow> bool" where
  "safe_integer n = (- (2 ^ 53) \<le> n \<and> n \<le> 2 ^ 53)"

subsection \<open>Conversion to strings\<close>

text \<open>Decimal notation, as \<^verbatim>\<open>toString()\<close> writes an integer within \<open>2^53\<close>.\<close>

definition digit_char :: "int \<Rightarrow> char" where
  "digit_char d =
     (if d = 0 then CHR ''0'' else if d = 1 then CHR ''1'' else if d = 2 then CHR ''2''
      else if d = 3 then CHR ''3'' else if d = 4 then CHR ''4'' else if d = 5 then CHR ''5''
      else if d = 6 then CHR ''6'' else if d = 7 then CHR ''7'' else if d = 8 then CHR ''8''
      else CHR ''9'')"

function show_digits :: "int \<Rightarrow> string" where
  "show_digits n =
     (if n < 10 then [digit_char n]
      else show_digits (n div 10) @ [digit_char (n mod 10)])"
  by pat_completeness auto
termination
  by (relation "measure nat") auto

definition show_int :: "int \<Rightarrow> string" where
  "show_int i = (if i < 0 then CHR ''-'' # show_digits (- i) else show_digits i)"

definition show_nat :: "nat \<Rightarrow> string" where
  "show_nat k = show_digits (int k)"

definition number_text :: "runtime \<Rightarrow> int \<Rightarrow> string" where
  "number_text rt n = (if safe_integer n then show_int n else rt_text rt n)"

fun join :: "string \<Rightarrow> string list \<Rightarrow> string" where
  "join sep [] = []"
| "join sep [x] = x"
| "join sep (x # y # ys) = x @ sep @ join sep (y # ys)"

text \<open>
  \<^verbatim>\<open>String(v)\<close>, which template literals and \<^verbatim>\<open>URLSearchParams.append\<close> apply: an array
  is its elements joined by commas, with \<^verbatim>\<open>null\<close> and \<^verbatim>\<open>undefined\<close> elements empty.
\<close>

fun js_toString :: "runtime \<Rightarrow> jsval \<Rightarrow> string" where
  "js_toString rt JUndefined = ''undefined''"
| "js_toString rt JNull = ''null''"
| "js_toString rt (JBool b) = (if b then ''true'' else ''false'')"
| "js_toString rt (JNum n) = number_text rt n"
| "js_toString rt (JStr s) = s"
| "js_toString rt (JArr xs) =
     join '','' (map (\<lambda>x. if x = JUndefined \<or> x = JNull then [] else js_toString rt x) xs)"
| "js_toString rt (JObj kvs) = ''[object Object]''"

subsection \<open>Conversion to numbers and comparison\<close>

text \<open>
  \<^verbatim>\<open>Number(v)\<close>. A string that is, between blanks, an optionally signed sequence of decimal
  digits of value at most \<open>2^53\<close> converts to that integer, a blank string to 0; the
  conversion of any other string is left to the runtime (\<open>Unmodelled\<close>).
\<close>

datatype numeric = Exact int | NaN | Unmodelled

definition is_space :: "char \<Rightarrow> bool" where
  "is_space c = (c = CHR '' '' \<or> c = CHR 0x09 \<or> c = CHR 0x0A \<or> c = CHR 0x0D)"

definition is_digit :: "char \<Rightarrow> bool" where
  "is_digit c = (48 \<le> (of_char c :: nat) \<and> (of_char c :: nat) \<le> 57)"

definition digits_value :: "string \<Rightarrow> int" where
  "digits_value s = foldl (\<lambda>acc c. 10 * acc + ((of_char c :: int) - 48)) 0 s"

definition trim :: "string \<Rightarrow> string" where
  "trim s = rev (dropWhile is_space (rev (dropWhile is_space s)))"

definition digits_number :: "string \<Rightarrow> int option" where
  "digits_number ds =
     (if ds \<noteq> [] \<and> list_all is_digit ds \<and> safe_integer (digits_value ds)
      then Some (digits_value ds) else None)"

definition string_to_number :: "string \<Rightarrow> numeric" where
  "string_to_number s =
     (case trim s of
        [] \<Rightarrow> Exact 0
      | c # cs \<Rightarrow>
          if c = CHR ''-'' then (case digits_number cs of Some n \<Rightarrow> Exact (- n) | None \<Rightarrow> Unmodelled)
          else if c = CHR ''+'' then (case digits_number cs of Some n \<Rightarrow> Exact n | None \<Rightarrow> Unmodelled)
          else (case digits_number (c # cs) of Some n \<Rightarrow> Exact n | None \<Rightarrow> Unmodelled))"

fun toNumber :: "runtime \<Rightarrow> jsval \<Rightarrow> numeric" where
  "toNumber rt JUndefined = NaN"
| "toNumber rt JNull = Exact 0"
| "toNumber rt (JBool b) = Exact (if b then 1 else 0)"
| "toNumber rt (JNum n) = Exact n"
| "toNumber rt (JStr s) = string_to_number s"
| "toNumber rt (JArr xs) = string_to_number (js_toString rt (JArr xs))"
| "toNumber rt (JObj kvs) = NaN"

text \<open>
  \<^verbatim>\<open>a < v\<close> and \<^verbatim>\<open>a > v\<close> for a number \<open>a\<close>: false when \<open>v\<close> converts to NaN.
\<close>

definition js_lt :: "runtime \<Rightarrow> int \<Rightarrow> jsval \<Rightarrow> bool" where
  "js_lt rt a v =
     (case toNumber rt v of Exact b \<Rightarrow> a < b | NaN \<Rightarrow> False | Unmodelled \<Rightarrow> rt_lt rt a v)"

definition js_gt :: "runtime \<Rightarrow> int \<Rightarrow> jsval \<Rightarrow> bool" where
  "js_gt rt a v =
     (case toNumber rt v of Exact b \<Rightarrow> a > b | NaN \<Rightarrow> False | Unmodelled \<Rightarrow> rt_gt rt a v)"

subsection \<open>Exceptions\<close>

text \<open>
  A JavaScript function returns normally (\<open>Inr\<close>) or throws (\<open>Inl\<close>); \<open>and_then\<close>
  sequences two steps, a throw of the first skipping the second.
\<close>

definition and_then :: "'e + 'a \<Rightarrow> ('a \<Rightarrow> 'e + 'b) \<Rightarrow> 'e + 'b" where
  "and_then m f = (case m of Inl e \<Rightarrow> Inl e | Inr v \<Rightarrow> f v)"

text \<open>\<^verbatim>\<open>error.message\<close>; the text of a TypeError is the engine's.\<close>

fun error_message :: "runtime \<Rightarrow> js_error \<Rightarrow> string" where
  "error_message rt TypeError = rt_type_error rt"
| "error_message rt (Error m) = m"

text \<open>\<^verbatim>\<open>xs.map(f)\<close> over the elements of an array, stopping at the first throw.\<close>

fun map_err :: "('a \<Rightarrow> 'e + 'b) \<Rightarrow> 'a list \<Rightarrow> 'e + 'b list" where
  "map_err f [] = Inr []"
| "map_err f (x # xs) =
     and_then (f x) (\<lambda>y. and_then (map_err f xs) (\<lambda>ys. Inr (y # ys)))"

text \<open>
  \<^verbatim>\<open>v.map(f)\<close> for a truthy value: only an array has a callable \<^verbatim>\<open>map\<close> (JSON holds no
  functions), on anything else the call is a TypeError.
\<close>

fun js_map :: "(jsval \<Rightarrow> js_error + 'b) \<Rightarrow> jsval \<Rightarrow> js_error + 'b list" where
  "js_map f (JArr xs) = map_err f xs"
| "js_map f v = Inl TypeError"

text \<open>\<^verbatim>\<open>xs.some(p)\<close>: stops at the first element that satisfies \<open>p\<close>, or at the first throw.\<close>

fun some_err :: "('a \<Rightarrow> 'e + bool) \<Rightarrow> 'a list \<Rightarrow> 'e + bool" where
  "some_err p [] = Inr False"
| "some_err p (x # xs) = and_then (p x) (\<lambda>b. if b then Inr True else some_err p xs)"

fun js_some :: "(jsval \<Rightarrow> js_error + bool) \<Rightarrow> jsval \<Rightarrow> js_error + bool" where
  "js_some p (JArr xs) = some_err p xs"
| "js_some p v = Inl TypeError"

definition nullish :: "jsval \<Rightarrow> bool" where
  "nullish v = (v = JUndefined \<or> v = JNull)"

section \<open>Credential checks\<close>

text \<open>
  \<^verbatim>\<open>LinkedInService.hasValidCredentials\<close>; \<open>now\<close> is the value of \<^verbatim>\<open>Date.now()\<close>.
  Every property read is kept fallible, so that the absence of a throw is a theorem.
\<close>

definition LinkedIn_hasValidCredentials :: "runtime \<Rightarrow> int \<Rightarrow> jsval \<Rightarrow> js_error + bool" where
  "LinkedIn_hasValidCredentials rt now credentials =
     (if \<not> truthy credentials then Inr False
      else and_then (get credentials ''accessToken'') (\<lambda>accessToken.
        if \<not> truthy accessToken then Inr False
        else and_then (get credentials ''expiresAt'') (\<lambda>expiresAt.
          if truthy expiresAt \<and> js_gt rt now expiresAt then Inr False
          else Inr True)))"

text \<open>\<^verbatim>\<open>IndeedService.hasValidCredentials\<close>: \<^verbatim>\<open>!!(credentials && credentials.publisherId && credentials.apiKey)\<close>.\<close>

definition Indeed_hasValidCredentials :: "jsval \<Rightarrow> js_error + bool" where
  "Indeed_hasValidCredentials credentials =
     (if \<not> truthy credentials then Inr False
      else and_then (get credentials ''publisherId'') (\<lambda>publisherId.
        if \<not> truthy publisherId then Inr False
        else and_then (get credentials ''apiKey'') (\<lambda>apiKey. Inr (truthy apiKey))))"

section \<open>Normalizers\<close>

text \<open>
  The object literal that \<^verbatim>\<open>mapJobToSchema\<close> builds and casts to \<^verbatim>\<open>JobListing\<close>. The cast is
  unchecked, so a field holds whatever the payload held: the fields read from the payload
  are JavaScript values. \<open>postedAt\<close> is \<open>None\<close> for \<^verbatim>\<open>null\<close> and \<open>Some v\<close> for
  \<^verbatim>\<open>new Date(v)\<close>; \<open>savedAt\<close> is the clock value at the call.
\<close>

record JobListingObject =
  userId :: jsval
  source :: string
  externalId :: jsval
  title :: jsval
  company :: jsval
  location :: jsval
  description :: jsval
  salary :: jsval
  url :: jsval
  isRemote :: jsval
  postedAt :: "jsval option"
  applied :: bool
  hidden :: bool
  details :: jsval
  id_ :: int
  savedAt :: int

text \<open>
  \<^verbatim>\<open>IndeedService.mapJobToSchema\<close>. The first property read, \<^verbatim>\<open>jobData.jobkey\<close>, throws on
  \<^verbatim>\<open>null\<close> and \<^verbatim>\<open>undefined\<close>; on any other payload every read succeeds.
\<close>

definition Indeed_mapJobToSchema :: "runtime \<Rightarrow> int \<Rightarrow> jsval \<Rightarrow> jsval \<Rightarrow> js_error + JobListingObject" where
  "Indeed_mapJobToSchema rt now jobData uid =
     and_then (get jobData ''jobkey'') (\<lambda>jobkey.
       Inr \<lparr> userId = uid,
             source = ''Indeed'',
             externalId = js_or jobkey (JStr (''indeed-'' @ number_text rt now)),
             title = js_or (get_opt jobData ''jobtitle'') (JStr ''Untitled Position''),
             company = js_or (get_opt jobData ''company'') (JStr ''Unknown Company''),
             location = js_or (js_or (get_opt jobData ''formattedLocation'') (get_opt jobData ''city'')) JNull,
             description = js_or (get_opt jobData ''snippet'') JNull,
             salary = js_or (get_opt jobData ''formattedRelativeTime'') JNull,
             url = js_or (get_opt jobData ''url'')
                     (JStr (''https://www.indeed.com/viewjob?jk='' @ js_toString rt jobkey)),
             isRemote = js_or (get_opt jobData ''remote'') JNull,
             postedAt = (if truthy (get_opt jobData ''date'') then Some (get_opt jobData ''date'') else None),
             applied = False,
             hidden = False,
             details = jobData,
             id_ = 0,
             savedAt = now \<rparr>)"

fun is_string :: "jsval \<Rightarrow> bool" where
  "is_string (JStr s) = True"
| "is_string v = False"

text \<open>
  \<^verbatim>\<open>LinkedInService.mapJobToSchema\<close>. \<^verbatim>\<open>jobData.company\<close> is read first and throws on
  \<^verbatim>\<open>null\<close> and \<^verbatim>\<open>undefined\<close>; \<open>companyData\<close> and \<open>locationData\<close> are truthy, so their
  \<^verbatim>\<open>name\<close> is read without a throw.
\<close>

definition LinkedIn_mapJobToSchema :: "runtime \<Rightarrow> int \<Rightarrow> jsval \<Rightarrow> jsval \<Rightarrow> js_error + JobListingObject" where
  "LinkedIn_mapJobToSchema rt now jobData uid =
     and_then (get jobData ''company'') (\<lambda>c.
       let companyData = js_or c (JObj []);
           locationData = js_or (js_or (get_opt jobData ''locationName'') (get_opt jobData ''location'')) (JObj [])
       in Inr \<lparr> userId = uid,
             source = ''LinkedIn'',
             externalId = js_or (get_opt jobData ''id'') (JStr (''linkedin-'' @ number_text rt now)),
             title = js_or (get_opt jobData ''title'') (JStr ''Untitled Position''),
             company = js_or (get_opt companyData ''name'') (JStr ''Unknown Company''),
             location = (if is_string locationData then locationData
                         else js_or (get_opt locationData ''name'') JNull),
             description = js_or (get_opt jobData ''description'') JNull,
             salary = js_or (get_opt jobData ''salary'') JNull,
             url = js_or (js_or (get_opt jobData ''applyUrl'') (get_opt jobData ''url''))
                     (JStr (''https://www.linkedin.com/jobs/view/'' @ js_toString rt (get_opt jobData ''id''))),
             isRemote = (if get_opt jobData ''workplaceType'' = JStr ''REMOTE'' then JBool True else JNull),
             postedAt = (if truthy (get_opt jobData ''postedAt'') then Some (get_opt jobData ''postedAt'') else None),
             applied = False,
             hidden = False,
             details = jobData,
             id_ = 0,
             savedAt = now \<rparr>)"

section \<open>Platform adapters\<close>

subsection \<open>The HTTP client\<close>

text \<open>
  An \<^verbatim>\<open>axios\<close> call is kept structured: the endpoint, the pairs appended to the
  \<^verbatim>\<open>URLSearchParams\<close>, the authorization header (for \<open>Basic\<close> the text before its base64
  encoding) and the posted body. The network is a parameter: a function from the request
  to a rejected promise (network error, non-2xx status) or to \<^verbatim>\<open>response.data\<close>.
\<close>

datatype auth = Basic string | Bearer string

record HttpRequest =
  verb :: string
  endpoint :: string
  query :: "(string \<times> string) list"
  authorization :: auth
  payload :: jsval

datatype HttpOutcome = Rejected js_error | Resolved jsval

type_synonym http = "HttpRequest \<Rightarrow> HttpOutcome"

text \<open>
  The search parameters of \<^verbatim>\<open>JobPlatformService.searchJobs\<close>. \<open>None\<close> is an absent field
  (for \<open>p_page\<close> and \<open>p_limit\<close> also the NaN that \<^verbatim>\<open>parseInt\<close> gives); an absent
  \<^verbatim>\<open>remote\<close> is \<open>False\<close>.
\<close>

record SearchParams =
  p_keywords :: "string list option"
  p_locations :: "string list option"
  p_remote :: bool
  p_excludeKeywords :: "string list option"
  p_experience :: "string option"
  p_page :: "int option"
  p_limit :: "int option"
  p_userId :: int

record SearchResult =
  jobs :: "JobListingObject list"
  hasMore :: bool
  total :: jsval

text \<open>
  \<^verbatim>\<open>params.page || 0\<close> and \<^verbatim>\<open>params.limit || 20\<close>: an absent value and 0 are both falsy.
\<close>

definition page_of :: "SearchParams \<Rightarrow> int" where
  "page_of params = (case p_page params of None \<Rightarrow> 0 | Some p \<Rightarrow> if p \<noteq> 0 then p else 0)"

definition limit_of :: "SearchParams \<Rightarrow> int" where
  "limit_of params = (case p_limit params of None \<Rightarrow> 20 | Some l \<Rightarrow> if l \<noteq> 0 then l else 20)"

definition empty_result :: SearchResult where
  "empty_result = \<lparr> jobs = [], hasMore = False, total = JNum 0 \<rparr>"

subsection \<open>Indeed\<close>

definition Indeed_searchParams :: "runtime \<Rightarrow> jsval \<Rightarrow> SearchParams \<Rightarrow> (string \<times> string) list" where
  "Indeed_searchParams rt credentials params =
     [(''publisher'', js_toString rt (get_opt credentials ''publisherId'')),
      (''v'', ''2''),
      (''format'', ''json'')]
     @ (case p_keywords params of
          None \<Rightarrow> []
        | Some ks \<Rightarrow> if length ks > 0 then [(''q'', join '' '' ks)] else [])
     @ (case p_locations params of
          None \<Rightarrow> []
        | Some ls \<Rightarrow> (case ls of [] \<Rightarrow> [] | l # _ \<Rightarrow> [(''l'', l)]))
     @ (if p_remote params then [(''remotejob'', ''1'')] else [])
     @ [(''start'', number_text rt (page_of params * limit_of params)),
        (''limit'', number_text rt (limit_of params))]"

definition Indeed_auth :: "runtime \<Rightarrow> jsval \<Rightarrow> auth" where
  "Indeed_auth rt credentials =
     Basic (js_toString rt (get_opt credentials ''publisherId'') @ '':'' @ js_toString rt (get_opt credentials ''apiKey''))"

definition Indeed_searchRequest :: "runtime \<Rightarrow> jsval \<Rightarrow> SearchParams \<Rightarrow> HttpRequest" where
  "Indeed_searchRequest rt credentials params =
     \<lparr> verb = ''GET'',
       endpoint = ''https://api.indeed.com/v2/jobs/search'',
       query = Indeed_searchParams rt credentials params,
       authorization = Indeed_auth rt credentials,
       payload = JUndefined \<rparr>"

text \<open>
  \<^verbatim>\<open>(page * limit) + jobs.length < total\<close>: exact while the product and the sum stay
  within \<open>2^53\<close>.
\<close>

definition Indeed_hasMore :: "runtime \<Rightarrow> int \<Rightarrow> int \<Rightarrow> int \<Rightarrow> jsval \<Rightarrow> bool" where
  "Indeed_hasMore rt page limit n reported =
     (if safe_integer (page * limit) \<and> safe_integer (page * limit + n)
      then js_lt rt (page * limit + n) reported
      else rt_hasMore rt page limit n reported)"

text \<open>The body of the \<^verbatim>\<open>try\<close> block of \<^verbatim>\<open>IndeedService.searchJobs\<close>.\<close>

definition Indeed_searchJobs_try :: "runtime \<Rightarrow> http \<Rightarrow> int \<Rightarrow> jsval \<Rightarrow> SearchParams \<Rightarrow> js_error + SearchResult" where
  "Indeed_searchJobs_try rt http now credentials params =
     and_then (Indeed_hasValidCredentials credentials) (\<lambda>valid.
       if \<not> valid then Inl (Error ''Invalid Indeed credentials'')
       else case http (Indeed_searchRequest rt credentials params) of
         Rejected e \<Rightarrow> Inl e
       | Resolved data \<Rightarrow>
           and_then (get data ''results'') (\<lambda>results.
           and_then (js_map (\<lambda>job. Indeed_mapJobToSchema rt now job (JNum (p_userId params)))
                       (js_or results (JArr []))) (\<lambda>js.
           and_then (get data ''totalResults'') (\<lambda>totalResults.
             let total = js_or totalResults (JNum (int (length js)));
                 hasMore = Indeed_hasMore rt (page_of params) (limit_of params) (int (length js)) total
             in Inr \<lparr> jobs = js, hasMore = hasMore, total = total \<rparr>))))"

text \<open>
  \<^verbatim>\<open>IndeedService.searchJobs\<close>: the \<^verbatim>\<open>catch\<close> turns every throw of the body into the
  empty result (after logging it).
\<close>

definition Indeed_searchJobs :: "runtime \<Rightarrow> http \<Rightarrow> int \<Rightarrow> jsval \<Rightarrow> SearchParams \<Rightarrow> js_error + SearchResult" where
  "Indeed_searchJobs rt http now credentials params =
     (case Indeed_searchJobs_try rt http now credentials params of
        Inl error \<Rightarrow> Inr empty_result
      | Inr result \<Rightarrow> Inr result)"

definition Indeed_detailsRequest :: "runtime \<Rightarrow> jsval \<Rightarrow> string \<Rightarrow> HttpRequest" where
  "Indeed_detailsRequest rt credentials extId =
     \<lparr> verb = ''GET'',
       endpoint = ''https://api.indeed.com/v2/jobs/search'',
       query = [(''publisher'', js_toString rt (get_opt credentials ''publisherId'')),
                (''v'', ''2''), (''format'', ''json''), (''jobkeys'', extId)],
       authorization = Indeed_auth rt credentials,
       payload = JUndefined \<rparr>"

definition Indeed_getJobDetails_try ::
  "runtime \<Rightarrow> http \<Rightarrow> int \<Rightarrow> jsval \<Rightarrow> string \<Rightarrow> jsval \<Rightarrow> js_error + JobListingObject option" where
  "Indeed_getJobDetails_try rt http now credentials extId uid =
     and_then (Indeed_hasValidCredentials credentials) (\<lambda>valid.
       if \<not> valid then Inl (Error ''Invalid Indeed credentials'')
       else case http (Indeed_detailsRequest rt credentials extId) of
         Rejected e \<Rightarrow> Inl e
       | Resolved data \<Rightarrow>
           and_then (get data ''results'') (\<lambda>results.
             if \<not> truthy results then Inr None
             else and_then (js_length results) (\<lambda>len.
               if len = JNum 0 then Inr None
               else and_then (js_index0 results) (\<lambda>first.
                 and_then (Indeed_mapJobToSchema rt now first uid) (\<lambda>job. Inr (Some job))))))"

text \<open>
  \<^verbatim>\<open>IndeedService.getJobDetails\<close>. The first statement,
  \<^verbatim>\<open>const userId = (credentials as any).userId || 1\<close>, stands before the \<^verbatim>\<open>try\<close>: a throw of
  that read reaches the caller.
\<close>

definition Indeed_getJobDetails ::
  "runtime \<Rightarrow> http \<Rightarrow> int \<Rightarrow> jsval \<Rightarrow> string \<Rightarrow> js_error + JobListingObject option" where
  "Indeed_getJobDetails rt http now credentials extId =
     and_then (get credentials ''userId'') (\<lambda>u.
       let uid = js_or u (JNum 1)
       in case Indeed_getJobDetails_try rt http now credentials extId uid of
            Inl error \<Rightarrow> Inr None
          | Inr r \<Rightarrow> Inr r)"

subsection \<open>LinkedIn\<close>

definition LinkedIn_searchParams :: "runtime \<Rightarrow> SearchParams \<Rightarrow> (string \<times> string) list" where
  "LinkedIn_searchParams rt params =
     (case p_keywords params of
        None \<Rightarrow> []
      | Some ks \<Rightarrow> if length ks > 0 then [(''keywords'', join '' '' ks)] else [])
     @ (case p_locations params of
          None \<Rightarrow> []
        | Some ls \<Rightarrow> if length ls > 0 then [(''location'', join '' '' ls)] else [])
     @ (if p_remote params then [(''remoteFilter'', ''true'')] else [])
     @ (case p_experience params of
          None \<Rightarrow> []
        | Some e \<Rightarrow> if e \<noteq> [] then [(''experience'', e)] else [])
     @ [(''start'', number_text rt (page_of params * limit_of params)),
        (''count'', number_text rt (limit_of params))]"

definition LinkedIn_auth :: "runtime \<Rightarrow> jsval \<Rightarrow> auth" where
  "LinkedIn_auth rt credentials = Bearer (js_toString rt (get_opt credentials ''accessToken''))"

definition LinkedIn_searchRequest :: "runtime \<Rightarrow> jsval \<Rightarrow> SearchParams \<Rightarrow> HttpRequest" where
  "LinkedIn_searchRequest rt credentials params =
     \<lparr> verb = ''GET'',
       endpoint = ''https://api.linkedin.com/v2/jobSearch'',
       query = LinkedIn_searchParams rt params,
       authorization = LinkedIn_auth rt credentials,
       payload = JUndefined \<rparr>"

text \<open>
  \<^verbatim>\<open>data.paging?.links?.some((link) => link.rel === "next") || false\<close>: the chain stops with
  \<^verbatim>\<open>undefined\<close> at a \<^verbatim>\<open>null\<close> or \<^verbatim>\<open>undefined\<close> \<open>paging\<close> or \<open>links\<close>.
\<close>

definition LinkedIn_hasMore :: "jsval \<Rightarrow> js_error + bool" where
  "LinkedIn_hasMore data =
     (let links = get_opt (get_opt data ''paging'') ''links''
      in if nullish links then Inr False
         else js_some (\<lambda>link. and_then (get link ''rel'') (\<lambda>rel. Inr (rel = JStr ''next''))) links)"

definition LinkedIn_searchJobs_try :: "runtime \<Rightarrow> http \<Rightarrow> int \<Rightarrow> jsval \<Rightarrow> SearchParams \<Rightarrow> js_error + SearchResult" where
  "LinkedIn_searchJobs_try rt http now credentials params =
     and_then (LinkedIn_hasValidCredentials rt now credentials) (\<lambda>valid.
       if \<not> valid then Inl (Error ''Invalid or expired LinkedIn credentials'')
       else case http (LinkedIn_searchRequest rt credentials params) of
         Rejected e \<Rightarrow> Inl e
       | Resolved data \<Rightarrow>
           and_then (get data ''elements'') (\<lambda>elements.
           and_then (js_map (\<lambda>job. LinkedIn_mapJobToSchema rt now job (JNum (p_userId params)))
                       (js_or elements (JArr []))) (\<lambda>js.
           and_then (LinkedIn_hasMore data) (\<lambda>more.
             let total = js_or (get_opt (get_opt data ''paging'') ''total'') (JNum (int (length js)))
             in Inr \<lparr> jobs = js, hasMore = more, total = total \<rparr>))))"

definition LinkedIn_searchJobs :: "runtime \<Rightarrow> http \<Rightarrow> int \<Rightarrow> jsval \<Rightarrow> SearchParams \<Rightarrow> js_error + SearchResult" where
  "LinkedIn_searchJobs rt http now credentials params =
     (case LinkedIn_searchJobs_try rt http now credentials params of
        Inl error \<Rightarrow> Inr empty_result
      | Inr result \<Rightarrow> Inr result)"

definition LinkedIn_detailsRequest :: "runtime \<Rightarrow> jsval \<Rightarrow> string \<Rightarrow> HttpRequest" where
  "LinkedIn_detailsRequest rt credentials extId =
     \<lparr> verb = ''GET'',
       endpoint = ''https://api.linkedin.com/v2/jobs/'' @ extId,
       query = [],
       authorization = LinkedIn_auth rt credentials,
       payload = JUndefined \<rparr>"

definition LinkedIn_getJobDetails_try ::
  "runtime \<Rightarrow> http \<Rightarrow> int \<Rightarrow> jsval \<Rightarrow> string \<Rightarrow> js_error + JobListingObject option" where
  "LinkedIn_getJobDetails_try rt http now credentials extId =
     and_then (LinkedIn_hasValidCredentials rt now credentials) (\<lambda>valid.
       if \<not> valid then Inl (Error ''Invalid or expired LinkedIn credentials'')
       else and_then (get credentials ''userId'') (\<lambda>u.
         let uid = js_or u (JNum 1)
         in case http (LinkedIn_detailsRequest rt credentials extId) of
              Rejected e \<Rightarrow> Inl e
            | Resolved jobData \<Rightarrow>
                and_then (LinkedIn_mapJobToSchema rt now jobData uid) (\<lambda>job. Inr (Some job))))"

definition LinkedIn_getJobDetails ::
  "runtime \<Rightarrow> http \<Rightarrow> int \<Rightarrow> jsval \<Rightarrow> string \<Rightarrow> js_error + JobListingObject option" where
  "LinkedIn_getJobDetails rt http now credentials extId =
     (case LinkedIn_getJobDetails_try rt http now credentials extId of
        Inl error \<Rightarrow> Inr None
      | Inr r \<Rightarrow> Inr r)"

text \<open>The application payload and the result of \<^verbatim>\<open>applyToJob\<close>.\<close>

record ApplyPayload =
  resumeId :: "int option"
  coverId :: "int option"
  customMessage :: "string option"

record ApplyResult =
  success :: bool
  message :: "string option"
  applicationId :: jsval

definition LinkedIn_applyRequest :: "runtime \<Rightarrow> jsval \<Rightarrow> string \<Rightarrow> ApplyPayload \<Rightarrow> HttpRequest" where
  "LinkedIn_applyRequest rt credentials extId application =
     \<lparr> verb = ''POST'',
       endpoint = ''https://api.linkedin.com/v2/jobs/'' @ extId @ ''/applications'',
       query = [],
       authorization = LinkedIn_auth rt credentials,
       payload = JObj [(''customMessage'',
                        (case customMessage application of None \<Rightarrow> JUndefined | Some m \<Rightarrow> JStr m))] \<rparr>"

definition LinkedIn_applyToJob_try ::
  "runtime \<Rightarrow> http \<Rightarrow> int \<Rightarrow> jsval \<Rightarrow> string \<Rightarrow> ApplyPayload \<Rightarrow> js_error + ApplyResult" where
  "LinkedIn_applyToJob_try rt http now credentials extId application =
     and_then (LinkedIn_hasValidCredentials rt now credentials) (\<lambda>valid.
       if \<not> valid then Inl (Error ''Invalid or expired LinkedIn credentials'')
       else case http (LinkedIn_applyRequest rt credentials extId application) of
         Rejected e \<Rightarrow> Inl e
       | Resolved data \<Rightarrow>
           and_then (get data ''id'') (\<lambda>i.
             Inr \<lparr> success = True, message = Some ''Application submitted'', applicationId = i \<rparr>))"

text \<open>
  \<^verbatim>\<open>LinkedInService.applyToJob\<close>: the \<^verbatim>\<open>catch\<close> answers
  \<^verbatim>\<open>error.message || "Failed to apply for job"\<close>.
\<close>

definition LinkedIn_applyToJob ::
  "runtime \<Rightarrow> http \<Rightarrow> int \<Rightarrow> jsval \<Rightarrow> string \<Rightarrow> ApplyPayload \<Rightarrow> js_error + ApplyResult" where
  "LinkedIn_applyToJob rt http now credentials extId application =
     (case LinkedIn_applyToJob_try rt http now credentials extId application of
        Inl error \<Rightarrow>
          Inr \<lparr> success = False,
                message = Some (if error_message rt error \<noteq> [] then error_message rt error
                                else ''Failed to apply for job''),
                applicationId = JUndefined \<rparr>
      | Inr r \<Rightarrow> Inr r)"

section \<open>The adapter registry\<close>

text \<open>
  An adapter is the object with the four methods of \<^verbatim>\<open>JobPlatformService\<close>; \<open>applyToJob\<close>
  is optional. The methods of the two built-in services close over the network and the
  clock.
\<close>

record JobPlatformService =
  platformName :: string
  hasValidCredentials :: "jsval \<Rightarrow> js_error + bool"
  searchJobs :: "jsval \<Rightarrow> SearchParams \<Rightarrow> js_error + SearchResult"
  getJobDetails :: "jsval \<Rightarrow> string \<Rightarrow> js_error + JobListingObject option"
  applyToJob :: "(jsval \<Rightarrow> string \<Rightarrow> ApplyPayload \<Rightarrow> js_error + ApplyResult) option"

definition LinkedInService :: "runtime \<Rightarrow> http \<Rightarrow> int \<Rightarrow> JobPlatformService" where
  "LinkedInService rt http now =
     \<lparr> platformName = ''LinkedIn'',
       hasValidCredentials = LinkedIn_hasValidCredentials rt now,
       searchJobs = LinkedIn_searchJobs rt http now,
       getJobDetails = LinkedIn_getJobDetails rt http now,
       applyToJob = Some (LinkedIn_applyToJob rt http now) \<rparr>"

definition IndeedService :: "runtime \<Rightarrow> http \<Rightarrow> int \<Rightarrow> JobPlatformService" where
  "IndeedService rt http now =
     \<lparr> platformName = ''Indeed'',
       hasValidCredentials = Indeed_hasValidCredentials,
       searchJobs = Indeed_searchJobs rt http now,
       getJobDetails = Indeed_getJobDetails rt http now,
       applyToJob = None \<rparr>"

text \<open>\<^verbatim>\<open>toLowerCase\<close> on the letters A to Z; other characters are left as they are.\<close>

definition lower_char :: "char \<Rightarrow> char" where
  "lower_char c =
     (case map_of (zip ''ABCDEFGHIJKLMNOPQRSTUVWXYZ'' ''abcdefghijklmnopqrstuvwxyz'') c of
        None \<Rightarrow> c
      | Some d \<Rightarrow> d)"

definition toLowerCase :: "string \<Rightarrow> string" where
  "toLowerCase s = map lower_char s"

text \<open>The static \<^verbatim>\<open>services\<close> object of \<^verbatim>\<open>JobServiceFactory\<close>: its own properties.\<close>

definition builtin_services :: "runtime \<Rightarrow> http \<Rightarrow> int \<Rightarrow> (string \<rightharpoonup> JobPlatformService)" where
  "builtin_services rt http now =
     [''linkedin'' \<mapsto> LinkedInService rt http now, ''indeed'' \<mapsto> IndeedService rt http now]"

text \<open>
  What \<^verbatim>\<open>this.services[platformKey] || null\<close> evaluates to. \<^verbatim>\<open>services\<close> is a plain object
  literal, so a key that is not an own property is looked up on \<^verbatim>\<open>Object.prototype\<close>. Of
  the members of \<^verbatim>\<open>Object.prototype\<close> only \<^verbatim>\<open>constructor\<close> and \<^verbatim>\<open>__proto__\<close> have names
  without a capital letter, the only ones a lower-cased key can hit; both values are
  truthy (the function \<^verbatim>\<open>Object\<close>, the prototype object), so \<^verbatim>\<open>|| null\<close> lets them through.
\<close>

datatype lookup = Adapter JobPlatformService | Inherited string | Absent

definition getService :: "(string \<rightharpoonup> JobPlatformService) \<Rightarrow> string \<Rightarrow> lookup" where
  "getService services platform =
     (let platformKey = toLowerCase platform
      in case services platformKey of
           Some service \<Rightarrow> Adapter service
         | None \<Rightarrow>
             if platformKey = ''constructor'' \<or> platformKey = ''__proto__'' then Inherited platformKey
             else Absent)"

section \<open>Persistence\<close>

text \<open>
  The rows of the tables \<^verbatim>\<open>users\<close>, \<^verbatim>\<open>job_listings\<close>, \<^verbatim>\<open>applications\<close> and \<^verbatim>\<open>stats\<close>, with the
  columns the job-platform handlers read or write. The adapters always supply booleans
  for the nullable columns \<^verbatim>\<open>applied\<close> and \<^verbatim>\<open>hidden\<close>.
\<close>

record User =
  u_id :: int
  linkedinCredentials :: jsval
  indeedCredentials :: jsval

record JobListing =
  l_id :: int
  l_userId :: int
  l_source :: string
  l_externalId :: string
  l_title :: string
  l_company :: string
  l_location :: "string option"
  l_description :: "string option"
  l_salary :: "string option"
  l_url :: string
  l_isRemote :: "bool option"
  l_postedAt :: "int option"
  l_savedAt :: int
  l_applied :: bool
  l_hidden :: bool
  l_details :: jsval

record InsertApplication =
  i_userId :: int
  i_role :: string
  i_company :: string
  i_description :: "string option"
  i_location :: "string option"
  i_status :: string
  i_link :: "string option"
  i_appliedAt :: "int option"

record Application =
  a_id :: int
  a_userId :: int
  a_role :: string
  a_company :: string
  a_description :: "string option"
  a_location :: "string option"
  a_salaryRange :: "string option"
  a_status :: string
  a_link :: "string option"
  a_notes :: "string option"
  a_createdAt :: int
  a_updatedAt :: int
  a_appliedAt :: "int option"
  a_responseAt :: "int option"

record Stat =
  s_id :: int
  s_userId :: int
  totalApplications :: int

text \<open>
  The state behind the \<^verbatim>\<open>storage\<close> object: each table as the list of its rows in insertion
  order, the serial counter of the applications table, and the
  environment of the database connection: \<open>calls\<close> counts the storage calls made so far,
  and \<open>fails n\<close> tells whether call number \<open>n\<close> is rejected (connection lost, constraint
  violated, ...). A rejected call leaves the tables as they were.
\<close>

record storage =
  users :: "User list"
  jobListings :: "JobListing list"
  applications :: "Application list"
  stats :: "Stat list"
  applicationSerial :: int
  calls :: nat
  fails :: "nat \<Rightarrow> bool"

type_synonym 'a io = "storage \<Rightarrow> (js_error + 'a) \<times> storage"

definition storage_call :: "(storage \<Rightarrow> 'a \<times> storage) \<Rightarrow> 'a io" where
  "storage_call run st =
     (let st1 = st\<lparr> calls := Suc (calls st) \<rparr>
      in if fails st (calls st) then (Inl (Error ''storage failure''), st1)
         else (case run st1 of (v, st2) \<Rightarrow> (Inr v, st2)))"

definition return_io :: "'a \<Rightarrow> 'a io" where
  "return_io v st = (Inr v, st)"

definition lift_io :: "js_error + 'a \<Rightarrow> 'a io" where
  "lift_io r st = (r, st)"

definition bind_io :: "'a io \<Rightarrow> ('a \<Rightarrow> 'b io) \<Rightarrow> 'b io" where
  "bind_io m f st = (case m st of (Inl e, st1) \<Rightarrow> (Inl e, st1) | (Inr v, st1) \<Rightarrow> f v st1)"

text \<open>
  The storage methods: a select takes the first matching row (\<^verbatim>\<open>const [row] = ...\<close>), an
  insert appends a row and returns it, an update rewrites the rows with the given id.
\<close>

definition getUser :: "int \<Rightarrow> User option io" where
  "getUser uid = storage_call (\<lambda>st. (find (\<lambda>u. u_id u = uid) (users st), st))"

definition getJobListing :: "int \<Rightarrow> JobListing option io" where
  "getJobListing lid = storage_call (\<lambda>st. (find (\<lambda>l. l_id l = lid) (jobListings st), st))"

definition getJobListingByExternalId :: "int \<Rightarrow> string \<Rightarrow> JobListing option io" where
  "getJobListingByExternalId uid extId =
     storage_call (\<lambda>st. (find (\<lambda>l. l_userId l = uid \<and> l_externalId l = extId) (jobListings st), st))"

text \<open>
  \<^verbatim>\<open>createJobListing\<close> inserts the object as it is given. The object that the search handler
  passes is the adapter's, which carries an \<^verbatim>\<open>id\<close> (the adapters write 0) and a \<^verbatim>\<open>savedAt\<close>:
  the row keeps both, no serial id is drawn, and the primary key rejects the insert when the
  table already holds a row with that id.
\<close>

definition createJobListing :: "JobListing \<Rightarrow> JobListing io" where
  "createJobListing jobListing st =
     (let st1 = st\<lparr> calls := Suc (calls st) \<rparr>
      in if fails st (calls st) \<or> list_ex (\<lambda>l. l_id l = l_id jobListing) (jobListings st)
         then (Inl (Error ''storage failure''), st1)
         else (Inr jobListing, st1\<lparr> jobListings := jobListings st @ [jobListing] \<rparr>))"

definition markJobListingAsApplied :: "int \<Rightarrow> JobListing option io" where
  "markJobListingAsApplied lid =
     storage_call (\<lambda>st.
       let rows = map (\<lambda>l. if l_id l = lid then l\<lparr> l_applied := True \<rparr> else l) (jobListings st)
       in (find (\<lambda>l. l_id l = lid) rows, st\<lparr> jobListings := rows \<rparr>))"

text \<open>
  \<^verbatim>\<open>createApplication\<close> is given no id: the row gets the next serial id and the current time
  as its default timestamps.
\<close>

definition createApplication :: "int \<Rightarrow> InsertApplication \<Rightarrow> Application io" where
  "createApplication now application =
     storage_call (\<lambda>st.
       let newApplication =
             \<lparr> a_id = applicationSerial st,
               a_userId = i_userId application,
               a_role = i_role application,
               a_company = i_company application,
               a_description = i_description application,
               a_location = i_location application,
               a_salaryRange = None,
               a_status = i_status application,
               a_link = i_link application,
               a_notes = None,
               a_createdAt = now,
               a_updatedAt = now,
               a_appliedAt = i_appliedAt application,
               a_responseAt = None \<rparr>
       in (newApplication,
           st\<lparr> applications := applications st @ [newApplication],
               applicationSerial := applicationSerial st + 1 \<rparr>))"

definition getUserStats :: "int \<Rightarrow> Stat option io" where
  "getUserStats uid = storage_call (\<lambda>st. (find (\<lambda>s. s_userId s = uid) (stats st), st))"

definition updateUserStats :: "int \<Rightarrow> int \<Rightarrow> Stat option io" where
  "updateUserStats sid n =
     storage_call (\<lambda>st.
       let rows = map (\<lambda>s. if s_id s = sid then s\<lparr> totalApplications := n \<rparr> else s) (stats st)
       in (find (\<lambda>s. s_id s = sid) rows, st\<lparr> stats := rows \<rparr>))"

section \<open>The search handler: saving the listings\<close>

text \<open>
  The body of the \<^verbatim>\<open>try\<close> inside the loop of \<^verbatim>\<open>GET /job-platform/search\<close>: the listing is
  looked up by the requesting user and the job's \<^verbatim>\<open>externalId\<close>; a new one is created, an
  existing one is pushed as it is stored.
\<close>

definition saveJob :: "int \<Rightarrow> JobListing \<Rightarrow> JobListing list \<Rightarrow> JobListing list io" where
  "saveJob uid job savedJobs =
     bind_io (getJobListingByExternalId uid (l_externalId job)) (\<lambda>existingJob.
       case existingJob of
         None \<Rightarrow> bind_io (createJobListing job) (\<lambda>savedJob. return_io (savedJobs @ [savedJob]))
       | Some existing \<Rightarrow> return_io (savedJobs @ [existing]))"

text \<open>
  The loop \<^verbatim>\<open>for (const job of result.jobs)\<close>: the \<^verbatim>\<open>catch\<close> logs a failure and goes on with
  the next job, \<^verbatim>\<open>savedJobs\<close> as it was.
\<close>

fun saveJobs :: "int \<Rightarrow> JobListing list \<Rightarrow> JobListing list \<Rightarrow> storage \<Rightarrow> JobListing list \<times> storage" where
  "saveJobs uid [] savedJobs st = (savedJobs, st)"
| "saveJobs uid (job # rest) savedJobs st =
     (case saveJob uid job savedJobs st of
        (Inl e, st1) \<Rightarrow> saveJobs uid rest savedJobs st1
      | (Inr savedJobs1, st1) \<Rightarrow> saveJobs uid rest savedJobs1 st1)"

section \<open>The apply handler\<close>

text \<open>
  The body of \<^verbatim>\<open>POST /job-platform/apply\<close>. An absent field of the request body is the falsy
  value of its type (0, the empty string), which is all that \<^verbatim>\<open>!userId\<close> and the like
  distinguish.
\<close>

record ApplyBody =
  b_userId :: int
  b_platform :: string
  b_jobId :: int
  b_resumeId :: "int option"
  b_coverId :: "int option"
  b_customMessage :: "string option"

datatype response_body =
    Message string
  | ApplySucceeded string Application
  | ApplyFailed string

record response =
  status :: nat
  body :: response_body

definition platform_credentials :: "User \<Rightarrow> string \<Rightarrow> jsval option" where
  "platform_credentials user platform =
     (if toLowerCase platform = ''linkedin'' then Some (linkedinCredentials user)
      else if toLowerCase platform = ''indeed'' then Some (indeedCredentials user)
      else None)"

text \<open>
  The own enumerable properties that an object spread \<^verbatim>\<open>{...v}\<close> copies, and
  \<^verbatim>\<open>{ ...v, userId }\<close>.
\<close>

fun own_properties :: "jsval \<Rightarrow> (string \<times> jsval) list" where
  "own_properties (JObj kvs) = kvs"
| "own_properties (JArr xs) = zip (map show_nat [0..<length xs]) xs"
| "own_properties (JStr s) = zip (map show_nat [0..<length s]) (map (\<lambda>c. JStr [c]) s)"
| "own_properties v = []"

definition with_userId :: "jsval \<Rightarrow> int \<Rightarrow> jsval" where
  "with_userId v uid = JObj (filter (\<lambda>kv. fst kv \<noteq> ''userId'') (own_properties v) @ [(''userId'', JNum uid)])"

text \<open>
  \<^verbatim>\<open>typeof credentials === "string" ? { ...JSON.parse(credentials || "{}"), userId } : { ...credentials, userId }\<close>,
  for truthy credentials; \<^verbatim>\<open>JSON.parse\<close> is a parameter and may throw.
\<close>

definition credentialsWithUserId :: "(string \<Rightarrow> js_error + jsval) \<Rightarrow> jsval \<Rightarrow> int \<Rightarrow> js_error + jsval" where
  "credentialsWithUserId JSON_parse credentials uid =
     (case credentials of
        JStr text \<Rightarrow> and_then (JSON_parse text) (\<lambda>v. Inr (with_userId v uid))
      | _ \<Rightarrow> Inr (with_userId credentials uid))"

text \<open>\<^verbatim>\<open>!service || !service.applyToJob\<close> fails only for an adapter that has the method.\<close>

definition apply_capability ::
  "lookup \<Rightarrow> (JobPlatformService \<times> (jsval \<Rightarrow> string \<Rightarrow> ApplyPayload \<Rightarrow> js_error + ApplyResult)) option" where
  "apply_capability found =
     (case found of
        Adapter service \<Rightarrow> (case applyToJob service of None \<Rightarrow> None | Some f \<Rightarrow> Some (service, f))
      | Inherited name \<Rightarrow> None
      | Absent \<Rightarrow> None)"

text \<open>The recording step, taken when \<^verbatim>\<open>result.success\<close> holds.\<close>

definition record_application :: "int \<Rightarrow> int \<Rightarrow> int \<Rightarrow> JobListing \<Rightarrow> ApplyResult \<Rightarrow> response io" where
  "record_application now uid jobId jobListing result =
     bind_io (markJobListingAsApplied jobId) (\<lambda>marked.
     bind_io (createApplication now
                \<lparr> i_userId = uid,
                  i_role = l_title jobListing,
                  i_company = l_company jobListing,
                  i_description = l_description jobListing,
                  i_location = l_location jobListing,
                  i_status = ''applied'',
                  i_link = Some (l_url jobListing),
                  i_appliedAt = Some now \<rparr>) (\<lambda>application.
     bind_io (getUserStats uid) (\<lambda>stats.
     bind_io (case stats of
                None \<Rightarrow> return_io None
              | Some row \<Rightarrow> updateUserStats (s_id row) (totalApplications row + 1)) (\<lambda>updated.
       return_io
         \<lparr> status = 200,
           body = ApplySucceeded
                    (case message result of
                       None \<Rightarrow> ''Application submitted successfully''
                     | Some m \<Rightarrow> if m \<noteq> [] then m else ''Application submitted successfully'')
                    application \<rparr>))))"

definition payload_of :: "ApplyBody \<Rightarrow> ApplyPayload" where
  "payload_of req =
     \<lparr> resumeId = b_resumeId req, coverId = b_coverId req, customMessage = b_customMessage req \<rparr>"

text \<open>The steps after the listing was found: capability, credentials, the adapter call.\<close>

definition invoke_adapter ::
  "(string \<rightharpoonup> JobPlatformService) \<Rightarrow> int \<Rightarrow> ApplyBody \<Rightarrow> jsval \<Rightarrow> JobListing \<Rightarrow> response io" where
  "invoke_adapter services now req credentials jobListing =
     (case apply_capability (getService services (b_platform req)) of
        None \<Rightarrow>
          return_io
            \<lparr> status = 400,
              body = Message (''Job application is not supported for '' @ b_platform req
                              @ '' or the platform is not supported'') \<rparr>
      | Some (service, apply) \<Rightarrow>
          bind_io (lift_io (hasValidCredentials service credentials)) (\<lambda>valid.
            if \<not> valid then
              return_io
                \<lparr> status = 401,
                  body = Message (''Invalid or expired '' @ b_platform req
                                  @ '' credentials. Please update your credentials in Settings.'') \<rparr>
            else
              bind_io (lift_io (apply credentials (l_externalId jobListing) (payload_of req))) (\<lambda>result.
                if success result then record_application now (b_userId req) (b_jobId req) jobListing result
                else
                  return_io
                    \<lparr> status = 400,
                      body = ApplyFailed
                               (case message result of
                                  None \<Rightarrow> ''Failed to submit application''
                                | Some m \<Rightarrow> if m \<noteq> [] then m else ''Failed to submit application'') \<rparr>)))"

definition apply_try ::
  "(string \<rightharpoonup> JobPlatformService) \<Rightarrow> (string \<Rightarrow> js_error + jsval) \<Rightarrow> int \<Rightarrow> ApplyBody \<Rightarrow> response io" where
  "apply_try services JSON_parse now req =
     (if b_userId req = 0 \<or> b_platform req = [] \<or> b_jobId req = 0 then
        return_io \<lparr> status = 400, body = Message ''Missing required fields'' \<rparr>
      else
        bind_io (getUser (b_userId req)) (\<lambda>user.
          case user of
            None \<Rightarrow> return_io \<lparr> status = 404, body = Message ''User not found'' \<rparr>
          | Some u \<Rightarrow>
              (case platform_credentials u (b_platform req) of
                 None \<Rightarrow> return_io \<lparr> status = 400, body = Message ''Unsupported platform'' \<rparr>
               | Some credentials \<Rightarrow>
                   if \<not> truthy credentials then
                     return_io
                       \<lparr> status = 400,
                         body = Message (''No '' @ b_platform req
                                         @ '' credentials found. Please add your credentials in Settings.'') \<rparr>
                   else
                     bind_io (lift_io (credentialsWithUserId JSON_parse credentials (b_userId req)))
                       (\<lambda>credentialsWithUserId.
                     bind_io (getJobListing (b_jobId req)) (\<lambda>jobListing.
                       case jobListing of
                         None \<Rightarrow> return_io \<lparr> status = 404, body = Message ''Job listing not found'' \<rparr>
                       | Some jl \<Rightarrow> invoke_adapter services now req credentialsWithUserId jl)))))"

text \<open>The handler: the outer \<^verbatim>\<open>catch\<close> answers 500 to every throw of the body.\<close>

definition apply_handler ::
  "(string \<rightharpoonup> JobPlatformService) \<Rightarrow> (string \<Rightarrow> js_error + jsval) \<Rightarrow> int \<Rightarrow> ApplyBody \<Rightarrow> storage
     \<Rightarrow> response \<times> storage" where
  "apply_handler services JSON_parse now req st =
     (case apply_try services JSON_parse now req st of
        (Inl error, st1) \<Rightarrow> (\<lparr> status = 500, body = Message ''Failed to apply to job'' \<rparr>, st1)
      | (Inr res, st1) \<Rightarrow> (res, st1))"

section \<open>Notions used in the statements\<close>

fun is_array :: "jsval \<Rightarrow> bool" where
  "is_array (JArr xs) = True"
| "is_array v = False"

text \<open>
  Response bodies on which the processing of a search throws: no body at all, a
  \<^verbatim>\<open>results\<close> (\<^verbatim>\<open>elements\<close>) that is neither empty nor an array, a \<^verbatim>\<open>null\<close> among the items,
  paging links that are not an array.
\<close>

definition Indeed_malformed :: "jsval \<Rightarrow> bool" where
  "Indeed_malformed data =
     (nullish data
      \<or> (truthy (get_opt data ''results'') \<and> \<not> is_array (get_opt data ''results''))
      \<or> (\<exists>xs. get_opt data ''results'' = JArr xs \<and> list_ex nullish xs))"

definition links_of :: "jsval \<Rightarrow> jsval" where
  "links_of data = get_opt (get_opt data ''paging'') ''links''"

definition LinkedIn_malformed :: "jsval \<Rightarrow> bool" where
  "LinkedIn_malformed data =
     (nullish data
      \<or> (truthy (get_opt data ''elements'') \<and> \<not> is_array (get_opt data ''elements''))
      \<or> (\<exists>xs. get_opt data ''elements'' = JArr xs \<and> list_ex nullish xs)
      \<or> (\<not> nullish (links_of data) \<and> \<not> is_array (links_of data)))"




text \<open>A query for page 2 with page size 0, and one for page 2 with page size 20.\<close>

definition page2_size0 :: SearchParams where
  "page2_size0 =
     \<lparr> p_keywords = Some [''React''], p_locations = None, p_remote = False,
       p_excludeKeywords = None, p_experience = None, p_page = Some 2, p_limit = Some 0,
       p_userId = 1 \<rparr>"


text \<open>The key by which the search handler looks a listing up.\<close>

definition lookup_key :: "JobListing \<Rightarrow> int \<times> string" where
  "lookup_key l = (l_userId l, l_externalId l)"

text \<open>The row that the lookup of the search handler finds for a fetched job.\<close>

definition stored_listing :: "int \<Rightarrow> JobListing \<Rightarrow> storage \<Rightarrow> JobListing option" where
  "stored_listing uid job st =
     find (\<lambda>l. l_userId l = uid \<and> l_externalId l = l_externalId job) (jobListings st)"

text \<open>
  The effects of the three recording writes of the apply handler on the tables: the flag
  of the listing with the given id, the new application row, the incremented counter of
  the user's first stats row.
\<close>

definition mark_applied :: "int \<Rightarrow> JobListing list \<Rightarrow> JobListing list" where
  "mark_applied lid rows = map (\<lambda>l. if l_id l = lid then l\<lparr> l_applied := True \<rparr> else l) rows"

definition new_application :: "int \<Rightarrow> int \<Rightarrow> JobListing \<Rightarrow> storage \<Rightarrow> Application" where
  "new_application now uid jl st =
     \<lparr> a_id = applicationSerial st, a_userId = uid, a_role = l_title jl, a_company = l_company jl,
       a_description = l_description jl, a_location = l_location jl, a_salaryRange = None,
       a_status = ''applied'', a_link = Some (l_url jl), a_notes = None, a_createdAt = now,
       a_updatedAt = now, a_appliedAt = Some now, a_responseAt = None \<rparr>"

definition bump_stats :: "int \<Rightarrow> Stat list \<Rightarrow> Stat list" where
  "bump_stats uid rows =
     (case find (\<lambda>s. s_userId s = uid) rows of
        None \<Rightarrow> rows
      | Some s \<Rightarrow>
          map (\<lambda>r. if s_id r = s_id s then r\<lparr> totalApplications := totalApplications s + 1 \<rparr> else r) rows)"

text \<open>
  The validating steps of the apply handler succeed: the required fields are present, the
  reads of the user and of the listing are not rejected, the user exists and has
  credentials for the platform, which give \<open>c\<close> once the user id is added, and the
  listing \<open>jl\<close> exists.
\<close>

definition validation_passes ::
  "(string \<Rightarrow> js_error + jsval) \<Rightarrow> ApplyBody \<Rightarrow> storage \<Rightarrow> jsval \<Rightarrow> JobListing \<Rightarrow> bool" where
  "validation_passes JSON_parse req st c jl =
     (b_userId req \<noteq> 0 \<and> b_platform req \<noteq> [] \<and> b_jobId req \<noteq> 0
      \<and> \<not> fails st (calls st) \<and> \<not> fails st (Suc (calls st))
      \<and> (\<exists>u cr. find (\<lambda>u. u_id u = b_userId req) (users st) = Some u
               \<and> platform_credentials u (b_platform req) = Some cr \<and> truthy cr
               \<and> credentialsWithUserId JSON_parse cr (b_userId req) = Inr c)
      \<and> find (\<lambda>l. l_id l = b_jobId req) (jobListings st) = Some jl)"

subsection \<open>Examples\<close>

text \<open>
  A runtime for the examples. None of them leaves the range that is modelled, so its
  answers are never asked for.
\<close>

definition some_runtime :: runtime where
  "some_runtime =
     \<lparr> rt_text = (\<lambda>x. ''?''), rt_hasMore = (\<lambda>a b n v. False), rt_lt = (\<lambda>a v. False),
       rt_gt = (\<lambda>a v. False), rt_type_error = ''TypeError'' \<rparr>"



definition example_user :: User where
  "example_user =
     \<lparr> u_id = 1,
       linkedinCredentials = JObj [(''accessToken'', JStr ''token'')],
       indeedCredentials = JObj [(''publisherId'', JStr ''p''), (''apiKey'', JStr ''k'')] \<rparr>"

definition stored_row :: JobListing where
  "stored_row =
     \<lparr> l_id = 1, l_userId = 1, l_source = ''LinkedIn'', l_externalId = ''42'', l_title = ''Engineer'',
       l_company = ''Acme'', l_location = None, l_description = None, l_salary = None,
       l_url = ''https://www.linkedin.com/jobs/view/42'', l_isRemote = None, l_postedAt = None,
       l_savedAt = 50, l_applied = True, l_hidden = False, l_details = JObj [(''id'', JStr ''42'')] \<rparr>"

definition open_row :: JobListing where
  "open_row = stored_row\<lparr> l_id := 2, l_externalId := ''43'', l_applied := False \<rparr>"

definition example_store :: storage where
  "example_store =
     \<lparr> users = [example_user],
       jobListings = [stored_row, open_row],
       applications = [],
       stats = [\<lparr> s_id = 1, s_userId = 1, totalApplications = 3 \<rparr>],
       applicationSerial = 1,
       calls = 0,
       fails = (\<lambda>n. False) \<rparr>"

text \<open>
  The same job fetched again from LinkedIn, with fresh data and the flags of a new listing;
  and a job that Indeed returns under the same external id.
\<close>

definition fetched_job :: JobListing where
  "fetched_job = stored_row\<lparr> l_id := 0, l_title := ''Senior Engineer'', l_savedAt := 100, l_applied := False \<rparr>"

definition fetched_indeed_job :: JobListing where
  "fetched_indeed_job =
     fetched_job\<lparr> l_source := ''Indeed'', l_title := ''Accountant'', l_url := ''https://www.indeed.com/viewjob?jk=42'' \<rparr>"

text \<open>
  A store that holds, for the same user, a LinkedIn listing and an Indeed listing with the
  same external id (two such rows can be created through \<^verbatim>\<open>POST /job-listings\<close>, which
  inserts without a lookup).
\<close>

definition indeed_row :: JobListing where
  "indeed_row =
     stored_row\<lparr> l_id := 5, l_source := ''Indeed'', l_title := ''Accountant'',
                  l_url := ''https://www.indeed.com/viewjob?jk=42'', l_applied := False \<rparr>"

definition two_platform_store :: storage where
  "two_platform_store = example_store\<lparr> jobListings := [stored_row, indeed_row] \<rparr>"

text \<open>
  Apply requests for the open listing, a network on which every request succeeds, and a
  \<^verbatim>\<open>JSON.parse\<close> that is never reached (the stored credentials are objects).
\<close>

definition linkedin_request :: ApplyBody where
  "linkedin_request =
     \<lparr> b_userId = 1, b_platform = ''LinkedIn'', b_jobId = 2, b_resumeId = None, b_coverId = None,
       b_customMessage = Some ''Hello'' \<rparr>"

definition indeed_request :: ApplyBody where
  "indeed_request = linkedin_request\<lparr> b_platform := ''Indeed'' \<rparr>"

definition accepting_http :: http where
  "accepting_http = (\<lambda>request. Resolved (JObj [(''id'', JStr ''A1'')]))"

definition no_parse :: "string \<Rightarrow> js_error + jsval" where
  "no_parse = (\<lambda>text. Inl (Error ''SyntaxError''))"

section \<open>Properties\<close>

subsection \<open>Property reads\<close>


lemma get_nonnullish: "\<not> nullish v \<Longrightarrow> get v k = Inr (get_opt v k)"
  by (cases v) (auto simp: nullish_def)

lemma get_nullish: "nullish v \<Longrightarrow> get v k = Inl TypeError"
  by (cases v) (auto simp: nullish_def)

lemma truthy_not_nullish: "truthy v \<Longrightarrow> \<not> nullish v"
  by (cases v) (auto simp: nullish_def)

subsection \<open>Normalization\<close>

text \<open>
  What both normalizers do for every payload other than \<^verbatim>\<open>null\<close> and \<^verbatim>\<open>undefined\<close> (on
  which they throw). A title or company that is missing, \<^verbatim>\<open>null\<close> or empty gives the literal
  default. When the payload carries its native identifier (\<^verbatim>\<open>jobkey\<close> for Indeed, \<^verbatim>\<open>id\<close> for
  LinkedIn) and no URL, the identifier is the listing's \<open>externalId\<close> and the URL is the
  platform's template followed by it. \<open>details\<close> is the payload itself.
\<close>

lemma normalizer_defaults:
  "(\<forall>job. Indeed_mapJobToSchema rt now jobData uid = Inr job \<longrightarrow>
       (\<not> truthy (get_opt jobData ''jobtitle'') \<longrightarrow> title job = JStr ''Untitled Position'')
     \<and> (\<not> truthy (get_opt jobData ''company'') \<longrightarrow> company job = JStr ''Unknown Company'')
     \<and> (truthy (get_opt jobData ''jobkey'') \<longrightarrow> externalId job = get_opt jobData ''jobkey'')
     \<and> (\<not> truthy (get_opt jobData ''url'') \<and> truthy (get_opt jobData ''jobkey'') \<longrightarrow>
          url job = JStr (''https://www.indeed.com/viewjob?jk='' @ js_toString rt (externalId job)))
     \<and> details job = jobData)
   \<and> (\<forall>job. LinkedIn_mapJobToSchema rt now jobData uid = Inr job \<longrightarrow>
       (\<not> truthy (get_opt jobData ''title'') \<longrightarrow> title job = JStr ''Untitled Position'')
     \<and> (\<not> truthy (get_opt jobData ''company'') \<or> \<not> truthy (get_opt (get_opt jobData ''company'') ''name'')
          \<longrightarrow> company job = JStr ''Unknown Company'')
     \<and> (truthy (get_opt jobData ''id'') \<longrightarrow> externalId job = get_opt jobData ''id'')
     \<and> (\<not> truthy (get_opt jobData ''applyUrl'') \<and> \<not> truthy (get_opt jobData ''url'')
          \<and> truthy (get_opt jobData ''id'') \<longrightarrow>
          url job = JStr (''https://www.linkedin.com/jobs/view/'' @ js_toString rt (externalId job)))
     \<and> details job = jobData)
   \<and> (\<not> nullish jobData \<longrightarrow>
        (\<exists>job. Indeed_mapJobToSchema rt now jobData uid = Inr job)
      \<and> (\<exists>job. LinkedIn_mapJobToSchema rt now jobData uid = Inr job))"
proof (cases "nullish jobData")
  case True
  then show ?thesis
    by (simp add: Indeed_mapJobToSchema_def LinkedIn_mapJobToSchema_def get_nullish and_then_def)
next
  case False
  then have g: "\<And>k. get jobData k = Inr (get_opt jobData k)"
    by (simp add: get_nonnullish)
  show ?thesis
    using False
    by (auto simp: Indeed_mapJobToSchema_def LinkedIn_mapJobToSchema_def g and_then_def js_or_def Let_def)
qed

text \<open>
  Claim C5 at the payload \<^verbatim>\<open>{}\<close>, which carries neither an identifier nor a URL, with the
  clock at 5. Both normalizers give the listing a generated \<open>externalId\<close>
  (\<^verbatim>\<open>indeed-5\<close>, \<^verbatim>\<open>linkedin-5\<close>), but build the URL from the absent identifier of the payload:
  the template is followed by the text \<^verbatim>\<open>undefined\<close>, not by the \<open>externalId\<close>.
\<close>

theorem mapJobToSchema_without_id:
  "(\<exists>job. Indeed_mapJobToSchema rt 5 (JObj []) uid = Inr job
        \<and> externalId job = JStr ''indeed-5''
        \<and> url job = JStr ''https://www.indeed.com/viewjob?jk=undefined''
        \<and> title job = JStr ''Untitled Position'' \<and> company job = JStr ''Unknown Company'')
   \<and> (\<exists>job. LinkedIn_mapJobToSchema rt 5 (JObj []) uid = Inr job
        \<and> externalId job = JStr ''linkedin-5''
        \<and> url job = JStr ''https://www.linkedin.com/jobs/view/undefined''
        \<and> title job = JStr ''Untitled Position'' \<and> company job = JStr ''Unknown Company'')"
  by (simp add: Indeed_mapJobToSchema_def LinkedIn_mapJobToSchema_def and_then_def js_or_def Let_def
      number_text_def safe_integer_def show_int_def digit_char_def)

subsection \<open>Credential validity\<close>




subsection \<open>Failures of a search\<close>

lemma and_then_Inl [simp]: "and_then (Inl e) f = Inl e"
  by (simp add: and_then_def)

lemma and_then_Inr [simp]: "and_then (Inr v) f = f v"
  by (simp add: and_then_def)

lemma js_map_not_array: "\<not> is_array v \<Longrightarrow> js_map f v = Inl TypeError"
  by (cases v) auto

lemma js_some_not_array: "\<not> is_array v \<Longrightarrow> js_some f v = Inl TypeError"
  by (cases v) auto

lemma map_err_Inl: "list_ex (\<lambda>x. \<exists>e. f x = Inl e) xs \<Longrightarrow> \<exists>e. map_err f xs = Inl e"
  by (induction xs) (auto simp: and_then_def split: sum.splits)


lemma Indeed_map_nullish: "nullish x \<Longrightarrow> Indeed_mapJobToSchema rt now x u = Inl TypeError"
  by (simp add: Indeed_mapJobToSchema_def get_nullish)

lemma LinkedIn_map_nullish: "nullish x \<Longrightarrow> LinkedIn_mapJobToSchema rt now x u = Inl TypeError"
  by (simp add: LinkedIn_mapJobToSchema_def get_nullish)



lemma Indeed_try_invalid:
  "Indeed_hasValidCredentials c \<noteq> Inr True \<Longrightarrow> \<exists>e. Indeed_searchJobs_try rt http now c q = Inl e"
  by (cases "Indeed_hasValidCredentials c") (auto simp: Indeed_searchJobs_try_def)

lemma LinkedIn_try_invalid:
  "LinkedIn_hasValidCredentials rt now c \<noteq> Inr True \<Longrightarrow> \<exists>e. LinkedIn_searchJobs_try rt http now c q = Inl e"
  by (cases "LinkedIn_hasValidCredentials rt now c") (auto simp: LinkedIn_searchJobs_try_def)

lemma Indeed_try_rejected:
  "http (Indeed_searchRequest rt c q) = Rejected e \<Longrightarrow> \<exists>e. Indeed_searchJobs_try rt http now c q = Inl e"
  by (cases "Indeed_hasValidCredentials c") (auto simp: Indeed_searchJobs_try_def)

lemma LinkedIn_try_rejected:
  "http (LinkedIn_searchRequest rt c q) = Rejected e \<Longrightarrow> \<exists>e. LinkedIn_searchJobs_try rt http now c q = Inl e"
  by (cases "LinkedIn_hasValidCredentials rt now c") (auto simp: LinkedIn_searchJobs_try_def)

lemma Indeed_process_malformed:
  assumes "Indeed_malformed data"
  shows "\<exists>e. and_then (get data ''results'') (\<lambda>results.
           and_then (js_map (\<lambda>job. Indeed_mapJobToSchema rt now job u) (js_or results (JArr []))) f) = Inl e"
proof (cases "nullish data")
  case True
  then show ?thesis by (simp add: get_nullish)
next
  case False
  then have g: "get data ''results'' = Inr (get_opt data ''results'')"
    by (simp add: get_nonnullish)
  from assms False consider
      (a) "truthy (get_opt data ''results'')" "\<not> is_array (get_opt data ''results'')"
    | (b) xs where "get_opt data ''results'' = JArr xs" "list_ex nullish xs"
    by (auto simp: Indeed_malformed_def)
  then show ?thesis
  proof cases
    case a
    then show ?thesis by (simp add: g js_or_def js_map_not_array)
  next
    case b
    then have "list_ex (\<lambda>x. \<exists>e. Indeed_mapJobToSchema rt now x u = Inl e) xs"
      using Indeed_map_nullish by (fastforce simp: list_ex_iff)
    then obtain e where "map_err (\<lambda>job. Indeed_mapJobToSchema rt now job u) xs = Inl e"
      using map_err_Inl [of "\<lambda>job. Indeed_mapJobToSchema rt now job u" xs] by auto
    with b show ?thesis by (simp add: g js_or_def)
  qed
qed

lemma Indeed_try_malformed:
  assumes "http (Indeed_searchRequest rt c q) = Resolved data" "Indeed_malformed data"
  shows "\<exists>e. Indeed_searchJobs_try rt http now c q = Inl e"
proof (cases "Indeed_hasValidCredentials c = Inr True")
  case False
  then show ?thesis by (rule Indeed_try_invalid)
next
  case True
  with assms(1) Indeed_process_malformed [OF assms(2)] show ?thesis
    by (simp add: Indeed_searchJobs_try_def)
qed

lemma LinkedIn_process_malformed:
  assumes "LinkedIn_malformed data"
  shows "\<exists>e. and_then (get data ''elements'') (\<lambda>elements.
           and_then (js_map (\<lambda>job. LinkedIn_mapJobToSchema rt now job u) (js_or elements (JArr [])))
             (\<lambda>js. and_then (LinkedIn_hasMore data) (f js))) = Inl e"
proof (cases "nullish data")
  case True
  then show ?thesis by (simp add: get_nullish)
next
  case False
  then have g: "get data ''elements'' = Inr (get_opt data ''elements'')"
    by (simp add: get_nonnullish)
  from assms False consider
      (a) "truthy (get_opt data ''elements'')" "\<not> is_array (get_opt data ''elements'')"
    | (b) xs where "get_opt data ''elements'' = JArr xs" "list_ex nullish xs"
    | (c) "\<not> nullish (links_of data)" "\<not> is_array (links_of data)"
    by (auto simp: LinkedIn_malformed_def)
  then show ?thesis
  proof cases
    case a
    then show ?thesis by (simp add: g js_or_def js_map_not_array)
  next
    case b
    then have "list_ex (\<lambda>x. \<exists>e. LinkedIn_mapJobToSchema rt now x u = Inl e) xs"
      using LinkedIn_map_nullish by (fastforce simp: list_ex_iff)
    then obtain e where "map_err (\<lambda>job. LinkedIn_mapJobToSchema rt now job u) xs = Inl e"
      using map_err_Inl [of "\<lambda>job. LinkedIn_mapJobToSchema rt now job u" xs] by auto
    with b show ?thesis by (simp add: g js_or_def)
  next
    case c
    then have "LinkedIn_hasMore data = Inl TypeError"
      by (simp add: LinkedIn_hasMore_def links_of_def Let_def js_some_not_array)
    then show ?thesis
      by (cases "js_map (\<lambda>job. LinkedIn_mapJobToSchema rt now job u) (js_or (get_opt data ''elements'') (JArr []))")
         (simp_all add: g)
  qed
qed

lemma LinkedIn_try_malformed:
  assumes "http (LinkedIn_searchRequest rt c q) = Resolved data" "LinkedIn_malformed data"
  shows "\<exists>e. LinkedIn_searchJobs_try rt http now c q = Inl e"
proof (cases "LinkedIn_hasValidCredentials rt now c = Inr True")
  case False
  then show ?thesis by (rule LinkedIn_try_invalid)
next
  case True
  with assms(1) LinkedIn_process_malformed [OF assms(2)] show ?thesis
    by (simp add: LinkedIn_searchJobs_try_def Let_def)
qed

lemma Indeed_catch:
  "\<exists>e. Indeed_searchJobs_try rt http now c q = Inl e \<Longrightarrow>
   Indeed_searchJobs rt http now c q = Inr \<lparr> jobs = [], hasMore = False, total = JNum 0 \<rparr>"
  by (auto simp: Indeed_searchJobs_def empty_result_def)

lemma LinkedIn_catch:
  "\<exists>e. LinkedIn_searchJobs_try rt http now c q = Inl e \<Longrightarrow>
   LinkedIn_searchJobs rt http now c q = Inr \<lparr> jobs = [], hasMore = False, total = JNum 0 \<rparr>"
  by (auto simp: LinkedIn_searchJobs_def empty_result_def)

text \<open>
  Claim C4. For every network, clock value, credentials value and search query, both
  \<^verbatim>\<open>searchJobs\<close> return a result and never throw; and whenever the credentials are not
  valid, the request is rejected, the response body is malformed, or anything else throws
  inside the method, the result is the empty job list with \<open>hasMore = False\<close> and
  \<open>total = 0\<close>.
\<close>

theorem searchJobs_never_raises:
  "(\<exists>r. Indeed_searchJobs rt http now c q = Inr r)
   \<and> (\<exists>r. LinkedIn_searchJobs rt http now c q = Inr r)
   \<and> ((Indeed_hasValidCredentials c \<noteq> Inr True
        \<or> (\<exists>e. http (Indeed_searchRequest rt c q) = Rejected e)
        \<or> (\<exists>data. http (Indeed_searchRequest rt c q) = Resolved data \<and> Indeed_malformed data)
        \<or> (\<exists>e. Indeed_searchJobs_try rt http now c q = Inl e))
       \<longrightarrow> Indeed_searchJobs rt http now c q = Inr \<lparr> jobs = [], hasMore = False, total = JNum 0 \<rparr>)
   \<and> ((LinkedIn_hasValidCredentials rt now c \<noteq> Inr True
        \<or> (\<exists>e. http (LinkedIn_searchRequest rt c q) = Rejected e)
        \<or> (\<exists>data. http (LinkedIn_searchRequest rt c q) = Resolved data \<and> LinkedIn_malformed data)
        \<or> (\<exists>e. LinkedIn_searchJobs_try rt http now c q = Inl e))
       \<longrightarrow> LinkedIn_searchJobs rt http now c q = Inr \<lparr> jobs = [], hasMore = False, total = JNum 0 \<rparr>)"
proof -
  have 1: "\<exists>r. Indeed_searchJobs rt http now c q = Inr r"
    by (simp add: Indeed_searchJobs_def split: sum.splits)
  have 2: "\<exists>r. LinkedIn_searchJobs rt http now c q = Inr r"
    by (simp add: LinkedIn_searchJobs_def split: sum.splits)
  have 3: "(Indeed_hasValidCredentials c \<noteq> Inr True
        \<or> (\<exists>e. http (Indeed_searchRequest rt c q) = Rejected e)
        \<or> (\<exists>data. http (Indeed_searchRequest rt c q) = Resolved data \<and> Indeed_malformed data)
        \<or> (\<exists>e. Indeed_searchJobs_try rt http now c q = Inl e))
       \<longrightarrow> Indeed_searchJobs rt http now c q = Inr \<lparr> jobs = [], hasMore = False, total = JNum 0 \<rparr>"
    using Indeed_try_invalid [where rt=rt and http=http and now=now and c=c and q=q]
      Indeed_try_rejected [where rt=rt and http=http and now=now and c=c and q=q]
      Indeed_try_malformed [where rt=rt and http=http and now=now and c=c and q=q]
      Indeed_catch [where rt=rt and http=http and now=now and c=c and q=q]
    by blast
  have 4: "(LinkedIn_hasValidCredentials rt now c \<noteq> Inr True
        \<or> (\<exists>e. http (LinkedIn_searchRequest rt c q) = Rejected e)
        \<or> (\<exists>data. http (LinkedIn_searchRequest rt c q) = Resolved data \<and> LinkedIn_malformed data)
        \<or> (\<exists>e. LinkedIn_searchJobs_try rt http now c q = Inl e))
       \<longrightarrow> LinkedIn_searchJobs rt http now c q = Inr \<lparr> jobs = [], hasMore = False, total = JNum 0 \<rparr>"
    using LinkedIn_try_invalid [where rt=rt and http=http and now=now and c=c and q=q]
      LinkedIn_try_rejected [where rt=rt and http=http and now=now and c=c and q=q]
      LinkedIn_try_malformed [where rt=rt and http=http and now=now and c=c and q=q]
      LinkedIn_catch [where rt=rt and http=http and now=now and c=c and q=q]
    by blast
  from 1 2 3 4 show ?thesis by blast
qed

theorem searchJobs_never_raises_witness:
  "Indeed_searchJobs some_runtime (\<lambda>r. Rejected (Error ''Network Error'')) 0
       (JObj [(''publisherId'', JStr ''p''), (''apiKey'', JStr ''k'')]) page2_size0
     = Inr \<lparr> jobs = [], hasMore = False, total = JNum 0 \<rparr>
   \<and> LinkedIn_searchJobs some_runtime (\<lambda>r. Resolved JNull) 0 (JObj [(''accessToken'', JStr ''t'')]) page2_size0
     = Inr \<lparr> jobs = [], hasMore = False, total = JNum 0 \<rparr>
   \<and> LinkedIn_searchJobs some_runtime (\<lambda>r. Resolved (JObj [])) 0 JNull page2_size0
     = Inr \<lparr> jobs = [], hasMore = False, total = JNum 0 \<rparr>"
proof -
  have m: "LinkedIn_malformed JNull" by (simp add: LinkedIn_malformed_def nullish_def)
  have i: "LinkedIn_hasValidCredentials some_runtime 0 JNull \<noteq> Inr True"
    by (simp add: LinkedIn_hasValidCredentials_def)
  show ?thesis
    using searchJobs_never_raises [of some_runtime "\<lambda>r. Rejected (Error ''Network Error'')" 0
        "JObj [(''publisherId'', JStr ''p''), (''apiKey'', JStr ''k'')]" page2_size0]
      searchJobs_never_raises [of some_runtime "\<lambda>r. Resolved JNull" 0 "JObj [(''accessToken'', JStr ''t'')]" page2_size0] m
      searchJobs_never_raises [of some_runtime "\<lambda>r. Resolved (JObj [])" 0 JNull page2_size0] i
    by simp
qed

subsection \<open>Pagination\<close>










subsection \<open>Fetching one job\<close>

text \<open>
  Claim C10 at \<^verbatim>\<open>null\<close> and \<^verbatim>\<open>undefined\<close> credentials: the Indeed adapter throws a TypeError
  to its caller, from the read of \<^verbatim>\<open>credentials.userId\<close> that stands before its \<^verbatim>\<open>try\<close>; the
  LinkedIn adapter, which makes the same read inside its \<^verbatim>\<open>try\<close>, returns \<^verbatim>\<open>null\<close>.
\<close>

theorem Indeed_getJobDetails_throws:
  "Indeed_getJobDetails rt http now JNull extId = Inl TypeError
   \<and> Indeed_getJobDetails rt http now JUndefined extId = Inl TypeError
   \<and> LinkedIn_getJobDetails rt http now JNull extId = Inr None
   \<and> LinkedIn_getJobDetails rt http now JUndefined extId = Inr None"
  by (simp add: Indeed_getJobDetails_def LinkedIn_getJobDetails_def LinkedIn_getJobDetails_try_def
      LinkedIn_hasValidCredentials_def)

text \<open>For all other credentials neither adapter throws.\<close>

lemma getJobDetails_returns:
  "(\<exists>r. LinkedIn_getJobDetails rt http now c extId = Inr r)
   \<and> (\<not> nullish c \<longrightarrow> (\<exists>r. Indeed_getJobDetails rt http now c extId = Inr r))"
  by (auto simp: LinkedIn_getJobDetails_def Indeed_getJobDetails_def get_nonnullish Let_def split: sum.splits)

subsection \<open>Registry lookup\<close>

lemma getService_case_insensitive:
  "toLowerCase p = toLowerCase p' \<Longrightarrow> getService services p = getService services p'"
  by (simp add: getService_def)

lemma getService_unknown:
  "services (toLowerCase p) = None \<Longrightarrow> toLowerCase p \<noteq> ''constructor'' \<Longrightarrow> toLowerCase p \<noteq> ''__proto__''
   \<Longrightarrow> getService services p = Absent"
  by (simp add: getService_def)

lemma toLowerCase_constructor: "toLowerCase ''constructor'' = ''constructor''"
  by (simp add: toLowerCase_def lower_char_def)

text \<open>
  Claim C9 at the identifier "constructor", for which no adapter is registered: the lookup
  does not return the absent result but the inherited \<^verbatim>\<open>Object.prototype.constructor\<close>.
\<close>

theorem getService_constructor:
  "builtin_services rt http now ''constructor'' = None
   \<and> getService (builtin_services rt http now) ''constructor'' = Inherited ''constructor''"
  by (simp add: getService_def builtin_services_def toLowerCase_constructor)

subsection \<open>Saving the listings of a search\<close>


lemma saveJob_cases:
  "saveJob uid job saved st =
     (if fails st (calls st) then (Inl (Error ''storage failure''), st\<lparr> calls := Suc (calls st) \<rparr>)
      else case find (\<lambda>l. l_userId l = uid \<and> l_externalId l = l_externalId job) (jobListings st) of
        Some r \<Rightarrow> (Inr (saved @ [r]), st\<lparr> calls := Suc (calls st) \<rparr>)
      | None \<Rightarrow>
          if fails st (Suc (calls st)) \<or> list_ex (\<lambda>l. l_id l = l_id job) (jobListings st)
          then (Inl (Error ''storage failure''), st\<lparr> calls := Suc (Suc (calls st)) \<rparr>)
          else (Inr (saved @ [job]),
                st\<lparr> calls := Suc (Suc (calls st)), jobListings := jobListings st @ [job] \<rparr>))"
  by (simp add: saveJob_def bind_io_def getJobListingByExternalId_def createJobListing_def storage_call_def
      return_io_def Let_def split: option.splits)

lemma find_append_Some: "find P xs = Some r \<Longrightarrow> find P (xs @ ys) = Some r"
  by (induction xs) auto

lemma saveJob_frame:
  assumes "saveJob uid job saved st = (r, st')"
  shows "users st' = users st \<and> applications st' = applications st \<and> stats st' = stats st
       \<and> fails st' = fails st
       \<and> (jobListings st' = jobListings st
          \<or> (find (\<lambda>l. l_userId l = uid \<and> l_externalId l = l_externalId job) (jobListings st) = None
             \<and> jobListings st' = jobListings st @ [job]))
       \<and> (case r of Inl e \<Rightarrow> True | Inr saved' \<Rightarrow> \<exists>row. saved' = saved @ [row] \<and> row \<in> set (jobListings st'))"
  using assms
  by (auto simp: saveJob_cases split: if_splits option.splits dest: find_Some_iff [THEN iffD1])

lemma saveJobs_frame:
  "saveJobs uid js saved st = (saved', st') \<Longrightarrow>
   users st' = users st \<and> applications st' = applications st \<and> stats st' = stats st \<and> fails st' = fails st
   \<and> (\<exists>new. jobListings st' = jobListings st @ new)
   \<and> (\<exists>rows. saved' = saved @ rows \<and> set rows \<subseteq> set (jobListings st'))"
proof (induction js arbitrary: saved st)
  case Nil
  then show ?case by simp
next
  case (Cons job rest)
  obtain r st1 where s: "saveJob uid job saved st = (r, st1)" by (cases "saveJob uid job saved st")
  note f = saveJob_frame [OF s]
  show ?case
  proof (cases r)
    case (Inl e)
    with Cons.prems s have "saveJobs uid rest saved st1 = (saved', st')" by simp
    from Cons.IH [OF this] f show ?thesis by auto
  next
    case (Inr saved1)
    with Cons.prems s have "saveJobs uid rest saved1 st1 = (saved', st')" by simp
    from Cons.IH [OF this] f Inr show ?thesis by auto
  qed
qed

lemma saveJob_existing:
  assumes "find (\<lambda>l. l_userId l = uid \<and> l_externalId l = l_externalId job) (jobListings st) = Some r"
  shows "saveJob uid job saved st =
           (if fails st (calls st) then Inl (Error ''storage failure'') else Inr (saved @ [r]),
            st\<lparr> calls := Suc (calls st) \<rparr>)"
  using assms by (simp add: saveJob_cases)

lemma saveJobs_existing_unchanged:
  "list_all (\<lambda>job. find (\<lambda>l. l_userId l = uid \<and> l_externalId l = l_externalId job) (jobListings st) \<noteq> None) js
   \<Longrightarrow> saveJobs uid js saved st = (saved', st')
   \<Longrightarrow> jobListings st' = jobListings st"
proof (induction js arbitrary: saved st)
  case Nil
  then show ?case by simp
next
  case (Cons job rest)
  from Cons.prems(1) obtain r where
    r: "find (\<lambda>l. l_userId l = uid \<and> l_externalId l = l_externalId job) (jobListings st) = Some r"
    by auto
  let ?st1 = "st\<lparr> calls := Suc (calls st) \<rparr>"
  have all: "list_all (\<lambda>job. find (\<lambda>l. l_userId l = uid \<and> l_externalId l = l_externalId job) (jobListings ?st1) \<noteq> None) rest"
    using Cons.prems(1) by simp
  show ?case
  proof (cases "fails st (calls st)")
    case True
    with Cons.prems(2) r have "saveJobs uid rest saved ?st1 = (saved', st')"
      by (simp add: saveJob_existing)
    from Cons.IH [OF all this] show ?thesis by simp
  next
    case False
    with Cons.prems(2) r have "saveJobs uid rest (saved @ [r]) ?st1 = (saved', st')"
      by (simp add: saveJob_existing)
    from Cons.IH [OF all this] show ?thesis by simp
  qed
qed

lemma saveJobs_existing_result:
  "list_all (\<lambda>job. find (\<lambda>l. l_userId l = uid \<and> l_externalId l = l_externalId job) (jobListings st) \<noteq> None) js
   \<Longrightarrow> \<forall>n. \<not> fails st n
   \<Longrightarrow> saveJobs uid js saved st = (saved', st')
   \<Longrightarrow> \<exists>rows. saved' = saved @ rows
         \<and> list_all2 (\<lambda>job r. find (\<lambda>l. l_userId l = uid \<and> l_externalId l = l_externalId job) (jobListings st) = Some r) js rows"
proof (induction js arbitrary: saved st)
  case Nil
  then show ?case by simp
next
  case (Cons job rest)
  from Cons.prems(1) obtain r where
    r: "find (\<lambda>l. l_userId l = uid \<and> l_externalId l = l_externalId job) (jobListings st) = Some r"
    by auto
  let ?st1 = "st\<lparr> calls := Suc (calls st) \<rparr>"
  have all: "list_all (\<lambda>job. find (\<lambda>l. l_userId l = uid \<and> l_externalId l = l_externalId job) (jobListings ?st1) \<noteq> None) rest"
    using Cons.prems(1) by simp
  have nf: "\<forall>n. \<not> fails ?st1 n" using Cons.prems(2) by simp
  from Cons.prems(2,3) r have "saveJobs uid rest (saved @ [r]) ?st1 = (saved', st')"
    by (simp add: saveJob_existing)
  from Cons.IH [OF all nf this] obtain rows where
    "saved' = (saved @ [r]) @ rows"
    "list_all2 (\<lambda>job r. find (\<lambda>l. l_userId l = uid \<and> l_externalId l = l_externalId job) (jobListings ?st1) = Some r) rest rows"
    by blast
  with r have "saved' = saved @ (r # rows)
     \<and> list_all2 (\<lambda>job r. find (\<lambda>l. l_userId l = uid \<and> l_externalId l = l_externalId job) (jobListings st) = Some r) (job # rest) (r # rows)"
    by simp
  then show ?case by blast
qed

lemma saveJobs_distinct:
  "distinct (map lookup_key (jobListings st)) \<Longrightarrow> list_all (\<lambda>job. l_userId job = uid) js
   \<Longrightarrow> saveJobs uid js saved st = (saved', st')
   \<Longrightarrow> distinct (map lookup_key (jobListings st'))"
proof (induction js arbitrary: saved st)
  case Nil
  then show ?case by simp
next
  case (Cons job rest)
  obtain r st1 where s: "saveJob uid job saved st = (r, st1)" by (cases "saveJob uid job saved st")
  have d1: "distinct (map lookup_key (jobListings st1))"
  proof -
    from saveJob_frame [OF s] consider
        (same) "jobListings st1 = jobListings st"
      | (new) "find (\<lambda>l. l_userId l = uid \<and> l_externalId l = l_externalId job) (jobListings st) = None"
              "jobListings st1 = jobListings st @ [job]"
      by auto
    then show ?thesis
    proof cases
      case same
      with Cons.prems(1) show ?thesis by simp
    next
      case new
      from new(1) have "\<forall>l \<in> set (jobListings st). lookup_key l \<noteq> (uid, l_externalId job)"
        by (auto simp: find_None_iff lookup_key_def)
      moreover have "lookup_key job = (uid, l_externalId job)"
        using Cons.prems(2) by (simp add: lookup_key_def)
      ultimately show ?thesis
        using new(2) Cons.prems(1) by auto
    qed
  qed
  from Cons.prems(2) have u: "list_all (\<lambda>job. l_userId job = uid) rest" by simp
  show ?case
  proof (cases r)
    case (Inl e)
    with Cons.prems(3) s have "saveJobs uid rest saved st1 = (saved', st')" by simp
    from Cons.IH [OF d1 u this] show ?thesis .
  next
    case (Inr saved1)
    with Cons.prems(3) s have "saveJobs uid rest saved1 st1 = (saved', st')" by simp
    from Cons.IH [OF d1 u this] show ?thesis .
  qed
qed

lemma saveJobs_returns_existing:
  "job \<in> set js
   \<Longrightarrow> find (\<lambda>l. l_userId l = uid \<and> l_externalId l = l_externalId job) (jobListings st) = Some r
   \<Longrightarrow> \<forall>n. \<not> fails st n
   \<Longrightarrow> saveJobs uid js saved st = (saved', st')
   \<Longrightarrow> r \<in> set saved'"
proof (induction js arbitrary: saved st)
  case Nil
  then show ?case by simp
next
  case (Cons j rest)
  obtain res st1 where s: "saveJob uid j saved st = (res, st1)" by (cases "saveJob uid j saved st")
  note f = saveJob_frame [OF s]
  from f have nf: "\<forall>n. \<not> fails st1 n" using Cons.prems(3) by simp
  from f Cons.prems(2) have fr: "find (\<lambda>l. l_userId l = uid \<and> l_externalId l = l_externalId job) (jobListings st1) = Some r"
    by (auto simp: find_append_Some)
  show ?case
  proof (cases "j = job")
    case True
    with s Cons.prems(2,3) have "res = Inr (saved @ [r])"
      by (simp add: saveJob_existing)
    with Cons.prems(4) s have "saveJobs uid rest (saved @ [r]) st1 = (saved', st')" by simp
    from saveJobs_frame [OF this] show ?thesis by auto
  next
    case False
    with Cons.prems(1) have m: "job \<in> set rest" by simp
    show ?thesis
    proof (cases res)
      case (Inl e)
      with Cons.prems(4) s have "saveJobs uid rest saved st1 = (saved', st')" by simp
      from Cons.IH [OF m fr nf this] show ?thesis .
    next
      case (Inr saved1)
      with Cons.prems(4) s have "saveJobs uid rest saved1 st1 = (saved', st')" by simp
      from Cons.IH [OF m fr nf this] show ?thesis .
    qed
  qed
qed

text \<open>
  Claim C1, as the code has it: the lookup key is the pair of the requesting user and the
  job's \<open>externalId\<close>; the source is no part of it. Re-ingesting jobs whose pair is
  already stored creates no row, whatever storage calls are rejected, and with no
  rejected call the result holds, position by position, the rows already stored. The
  search never creates a second row for a pair: distinct keys stay distinct.
\<close>

theorem dedup_by_user_and_externalId:
  "(list_all (\<lambda>job. stored_listing uid job st \<noteq> None) js \<longrightarrow>
       jobListings (snd (saveJobs uid js saved st)) = jobListings st
     \<and> ((\<forall>n. \<not> fails st n) \<longrightarrow>
          (\<exists>rows. fst (saveJobs uid js saved st) = saved @ rows
                 \<and> list_all2 (\<lambda>job r. stored_listing uid job st = Some r) js rows)))
   \<and> (distinct (map lookup_key (jobListings st)) \<and> list_all (\<lambda>job. l_userId job = uid) js \<longrightarrow>
        distinct (map lookup_key (jobListings (snd (saveJobs uid js saved st)))))
   \<and> stored_listing uid (job\<lparr> l_source := other \<rparr>) st = stored_listing uid job st"
proof -
  obtain saved' st' where r: "saveJobs uid js saved st = (saved', st')"
    by (cases "saveJobs uid js saved st")
  have a: "jobListings st' = jobListings st"
    if "list_all (\<lambda>job. stored_listing uid job st \<noteq> None) js"
    using that saveJobs_existing_unchanged [OF _ r] by (simp add: stored_listing_def)
  have b: "\<exists>rows. saved' = saved @ rows \<and> list_all2 (\<lambda>job r. stored_listing uid job st = Some r) js rows"
    if "list_all (\<lambda>job. stored_listing uid job st \<noteq> None) js" "\<forall>n. \<not> fails st n"
    using that saveJobs_existing_result [OF _ _ r] by (simp add: stored_listing_def)
  have c: "distinct (map lookup_key (jobListings st'))"
    if "distinct (map lookup_key (jobListings st))" "list_all (\<lambda>job. l_userId job = uid) js"
    using that saveJobs_distinct [OF _ _ r] by simp
  have d: "stored_listing uid (job\<lparr> l_source := other \<rparr>) st = stored_listing uid job st"
    by (simp add: stored_listing_def)
  from a b c d show ?thesis by (simp add: r)
qed

lemma example_lookup:
  "stored_listing 1 fetched_job example_store = Some stored_row"
  "stored_listing 1 fetched_indeed_job example_store = Some stored_row"
  by (simp_all add: stored_listing_def example_store_def fetched_job_def fetched_indeed_job_def
      stored_row_def open_row_def)

theorem dedup_by_user_and_externalId_witness:
  "jobListings (snd (saveJobs 1 [fetched_job] [] example_store)) = [stored_row, open_row]
   \<and> fst (saveJobs 1 [fetched_job] [] example_store) = [stored_row]
   \<and> distinct (map lookup_key (jobListings (snd (saveJobs 1 [fetched_job] [] example_store))))"
proof -
  have h1: "list_all (\<lambda>job. stored_listing 1 job example_store \<noteq> None) [fetched_job]"
    by (simp add: example_lookup)
  have h2: "\<forall>n. \<not> fails example_store n" by (simp add: example_store_def)
  have h3: "distinct (map lookup_key (jobListings example_store))"
    by (simp add: example_store_def lookup_key_def stored_row_def open_row_def)
  have h4: "list_all (\<lambda>job. l_userId job = 1) [fetched_job]"
    by (simp add: fetched_job_def stored_row_def)
  have h5: "jobListings example_store = [stored_row, open_row]" by (simp add: example_store_def)
  from dedup_by_user_and_externalId [of 1 example_store "[fetched_job]" "[]"] h1 h2 h3 h4 h5
  show ?thesis by (auto simp: example_lookup list_all2_Cons1)
qed

text \<open>
  The claim as stated fails where two platforms share an external id: the job that Indeed
  returns under the id of the stored LinkedIn listing is not saved as a listing of its own;
  the search answers with the LinkedIn row.
\<close>

theorem shared_externalId_across_platforms:
  "l_source fetched_indeed_job = ''Indeed'' \<and> l_source stored_row = ''LinkedIn''
   \<and> l_externalId fetched_indeed_job = l_externalId stored_row
   \<and> fst (saveJobs 1 [fetched_indeed_job] [] example_store) = [stored_row]
   \<and> jobListings (snd (saveJobs 1 [fetched_indeed_job] [] example_store)) = [stored_row, open_row]"
proof -
  have f: "find (\<lambda>l. l_userId l = 1 \<and> l_externalId l = l_externalId fetched_indeed_job)
             (jobListings example_store) = Some stored_row"
    using example_lookup(2) by (simp add: stored_listing_def)
  have "saveJobs 1 [fetched_indeed_job] [] example_store
          = ([stored_row], example_store\<lparr> calls := Suc (calls example_store) \<rparr>)"
    by (simp add: saveJob_existing [OF f]) (simp add: example_store_def)
  then show ?thesis
    by (simp add: fetched_indeed_job_def fetched_job_def stored_row_def example_store_def)
qed

text \<open>
  Claim C3, as the code has it. Whatever the adapter returned and whatever storage calls
  are rejected, the search leaves every stored row as it was (the stored rows are a prefix
  of the table afterwards; users, applications and stats are untouched), so a row whose
  \<open>applied\<close> flag is true is still there with the flag true. Every row of the result is
  a row of the table, never the fetched data; and when the connection rejects no call, the
  result holds, for a fetched job, the first stored row with the requesting user and the
  job's \<open>externalId\<close>, whatever the source of that row.
\<close>

theorem search_keeps_existing_rows:
  "(\<exists>new. jobListings (snd (saveJobs uid js saved st)) = jobListings st @ new)
   \<and> users (snd (saveJobs uid js saved st)) = users st
   \<and> applications (snd (saveJobs uid js saved st)) = applications st
   \<and> stats (snd (saveJobs uid js saved st)) = stats st
   \<and> (\<forall>r \<in> set (jobListings st). l_applied r \<longrightarrow> r \<in> set (jobListings (snd (saveJobs uid js saved st))))
   \<and> (\<exists>rows. fst (saveJobs uid js saved st) = saved @ rows
            \<and> set rows \<subseteq> set (jobListings (snd (saveJobs uid js saved st))))
   \<and> (\<forall>job \<in> set js. \<forall>r. stored_listing uid job st = Some r \<and> (\<forall>n. \<not> fails st n) \<longrightarrow>
          r \<in> set (fst (saveJobs uid js saved st)))"
proof -
  obtain saved' st' where r: "saveJobs uid js saved st = (saved', st')"
    by (cases "saveJobs uid js saved st")
  note f = saveJobs_frame [OF r]
  have m: "r \<in> set saved'"
    if "job \<in> set js" "stored_listing uid job st = Some r" "\<forall>n. \<not> fails st n" for job r
    using saveJobs_returns_existing [OF that(1) _ that(3) r] that(2) by (simp add: stored_listing_def)
  from f m show ?thesis by (auto simp: r)
qed

theorem search_keeps_existing_rows_witness:
  "stored_row \<in> set (fst (saveJobs 1 [fetched_job] [] example_store))
   \<and> stored_row \<in> set (jobListings (snd (saveJobs 1 [fetched_job] [] example_store)))
   \<and> l_applied stored_row \<and> \<not> l_applied fetched_job"
proof -
  have h2: "\<forall>n. \<not> fails example_store n" by (simp add: example_store_def)
  have h5: "stored_row \<in> set (jobListings example_store)" by (simp add: example_store_def)
  have h6: "l_applied stored_row" "\<not> l_applied fetched_job"
    by (simp_all add: stored_row_def fetched_job_def)
  from search_keeps_existing_rows [of 1 "[fetched_job]" "[]" example_store] h2 h5 h6 example_lookup(1)
  show ?thesis by auto
qed

text \<open>
  The claim as stated fails for the key of user, source and external id: in a store that
  holds a LinkedIn row and an Indeed row with the same user and external id, the job that
  Indeed returns matches the Indeed row in all three, and the result holds the LinkedIn
  row.
\<close>

theorem triple_match_answers_other_row:
  "indeed_row \<in> set (jobListings two_platform_store)
   \<and> l_userId fetched_indeed_job = l_userId indeed_row
   \<and> l_source fetched_indeed_job = l_source indeed_row
   \<and> l_externalId fetched_indeed_job = l_externalId indeed_row
   \<and> fst (saveJobs 1 [fetched_indeed_job] [] two_platform_store) = [stored_row]
   \<and> l_source stored_row = ''LinkedIn''"
proof -
  have f: "find (\<lambda>l. l_userId l = 1 \<and> l_externalId l = l_externalId fetched_indeed_job)
             (jobListings two_platform_store) = Some stored_row"
    by (simp add: two_platform_store_def example_store_def fetched_indeed_job_def fetched_job_def
        stored_row_def)
  have "fst (saveJobs 1 [fetched_indeed_job] [] two_platform_store) = [stored_row]"
    by (simp add: saveJob_existing [OF f]) (simp add: two_platform_store_def example_store_def)
  then show ?thesis
    by (simp add: two_platform_store_def example_store_def fetched_indeed_job_def fetched_job_def
        indeed_row_def stored_row_def)
qed

subsection \<open>The apply handler\<close>


lemma record_application_mark_fails:
  "fails st (calls st) \<Longrightarrow>
   record_application now uid jobId jl result st =
     (Inl (Error ''storage failure''), st\<lparr> calls := Suc (calls st) \<rparr>)"
  by (simp add: record_application_def bind_io_def markJobListingAsApplied_def storage_call_def)

lemma record_application_create_fails:
  "\<not> fails st (calls st) \<Longrightarrow> fails st (Suc (calls st)) \<Longrightarrow>
   record_application now uid jobId jl result st =
     (Inl (Error ''storage failure''),
      st\<lparr> calls := Suc (Suc (calls st)), jobListings := mark_applied jobId (jobListings st) \<rparr>)"
  by (simp add: record_application_def bind_io_def markJobListingAsApplied_def createApplication_def
      storage_call_def Let_def mark_applied_def)

lemma record_application_created:
  assumes "\<not> fails st (calls st)" "\<not> fails st (Suc (calls st))"
  shows "jobListings (snd (record_application now uid jobId jl result st)) = mark_applied jobId (jobListings st)
       \<and> applications (snd (record_application now uid jobId jl result st))
           = applications st @ [new_application now uid jl st]
       \<and> users (snd (record_application now uid jobId jl result st)) = users st"
  using assms
  by (simp add: record_application_def bind_io_def markJobListingAsApplied_def createApplication_def
      getUserStats_def updateUserStats_def return_io_def
      storage_call_def Let_def mark_applied_def new_application_def split: option.splits)

lemma apply_try_validated:
  assumes "validation_passes JSON_parse req st c jl"
  shows "apply_try services JSON_parse now req st
           = invoke_adapter services now req c jl (st\<lparr> calls := Suc (Suc (calls st)) \<rparr>)"
  using assms
  by (auto simp: validation_passes_def apply_try_def bind_io_def getUser_def getJobListing_def storage_call_def
      lift_io_def Let_def)

lemma invoke_unsupported:
  "apply_capability (getService services (b_platform req)) = None \<Longrightarrow>
   invoke_adapter services now req c jl st =
     (Inr \<lparr> status = 400,
            body = Message (''Job application is not supported for '' @ b_platform req
                            @ '' or the platform is not supported'') \<rparr>, st)"
  by (simp add: invoke_adapter_def return_io_def)

lemma invoke_success:
  assumes "getService services (b_platform req) = Adapter service" "applyToJob service = Some f"
    and "hasValidCredentials service c = Inr True"
    and "f c (l_externalId jl) (payload_of req) = Inr result" "success result"
  shows "invoke_adapter services now req c jl st
           = record_application now (b_userId req) (b_jobId req) jl result st"
  using assms
  by (simp add: invoke_adapter_def apply_capability_def bind_io_def lift_io_def payload_of_def)

lemma apply_try_unsupported_frame:
  assumes "apply_capability (getService services (b_platform req)) = None"
  shows "jobListings (snd (apply_try services JSON_parse now req st)) = jobListings st
       \<and> applications (snd (apply_try services JSON_parse now req st)) = applications st
       \<and> stats (snd (apply_try services JSON_parse now req st)) = stats st
       \<and> users (snd (apply_try services JSON_parse now req st)) = users st
       \<and> (case fst (apply_try services JSON_parse now req st) of
            Inl e \<Rightarrow> True
          | Inr res \<Rightarrow> status res = 400 \<or> status res = 404)"
  using assms
  by (auto simp: apply_try_def bind_io_def getUser_def getJobListing_def storage_call_def
      lift_io_def return_io_def invoke_unsupported Let_def split: option.splits sum.splits)

lemma apply_handler_fst:
  "fst (apply_handler services JSON_parse now req st) =
     (case fst (apply_try services JSON_parse now req st) of
        Inl e \<Rightarrow> \<lparr> status = 500, body = Message ''Failed to apply to job'' \<rparr>
      | Inr res \<Rightarrow> res)"
  by (simp add: apply_handler_def split: prod.splits sum.splits)

lemma apply_handler_snd:
  "snd (apply_handler services JSON_parse now req st) = snd (apply_try services JSON_parse now req st)"
  by (simp add: apply_handler_def split: prod.splits sum.splits)

text \<open>
  Claim C6. When the adapter registered for the requested platform has no \<^verbatim>\<open>applyToJob\<close>,
  the apply handler ends in a failure (status 400, 404 or 500) and writes nothing: no
  application is created, no listing is flagged, no counter is incremented. When the
  validating steps pass, the failure is the 400 whose message says that job application
  is not supported for that platform.
\<close>

theorem apply_unsupported:
  assumes "getService services (b_platform req) = Adapter service" and "applyToJob service = None"
  shows "applications (snd (apply_handler services JSON_parse now req st)) = applications st
       \<and> jobListings (snd (apply_handler services JSON_parse now req st)) = jobListings st
       \<and> stats (snd (apply_handler services JSON_parse now req st)) = stats st
       \<and> (status (fst (apply_handler services JSON_parse now req st)) = 400
          \<or> status (fst (apply_handler services JSON_parse now req st)) = 404
          \<or> status (fst (apply_handler services JSON_parse now req st)) = 500)
       \<and> (\<forall>c jl. validation_passes JSON_parse req st c jl \<longrightarrow>
            fst (apply_handler services JSON_parse now req st) =
              \<lparr> status = 400,
                body = Message (''Job application is not supported for '' @ b_platform req
                                @ '' or the platform is not supported'') \<rparr>)"
proof -
  from assms have cap: "apply_capability (getService services (b_platform req)) = None"
    by (simp add: apply_capability_def)
  from apply_try_unsupported_frame [OF cap] have frame:
    "applications (snd (apply_handler services JSON_parse now req st)) = applications st"
    "jobListings (snd (apply_handler services JSON_parse now req st)) = jobListings st"
    "stats (snd (apply_handler services JSON_parse now req st)) = stats st"
    by (simp_all add: apply_handler_snd)
  from apply_try_unsupported_frame [OF cap, of JSON_parse now st] have failure:
    "status (fst (apply_handler services JSON_parse now req st)) = 400
     \<or> status (fst (apply_handler services JSON_parse now req st)) = 404
     \<or> status (fst (apply_handler services JSON_parse now req st)) = 500"
    by (auto simp: apply_handler_fst split: sum.splits)
  have "fst (apply_handler services JSON_parse now req st) =
              \<lparr> status = 400,
                body = Message (''Job application is not supported for '' @ b_platform req
                                @ '' or the platform is not supported'') \<rparr>"
    if "validation_passes JSON_parse req st c jl" for c jl
    using that cap by (simp add: apply_handler_def apply_try_validated invoke_unsupported)
  with frame failure show ?thesis by blast
qed

lemma toLowerCase_examples:
  "toLowerCase ''Indeed'' = ''indeed''" "toLowerCase ''LinkedIn'' = ''linkedin''"
  by (simp_all add: toLowerCase_def lower_char_def)

lemma example_validation:
  "validation_passes no_parse indeed_request example_store
     (with_userId (indeedCredentials example_user) 1) open_row"
  "validation_passes no_parse linkedin_request example_store
     (with_userId (linkedinCredentials example_user) 1) open_row"
  by (simp_all add: validation_passes_def indeed_request_def linkedin_request_def example_store_def
      example_user_def platform_credentials_def toLowerCase_examples credentialsWithUserId_def
      stored_row_def open_row_def)

theorem apply_unsupported_witness:
  "fst (apply_handler (builtin_services some_runtime accepting_http 100) no_parse 100 indeed_request example_store)
     = \<lparr> status = 400,
         body = Message ''Job application is not supported for Indeed or the platform is not supported'' \<rparr>
   \<and> applications (snd (apply_handler (builtin_services some_runtime accepting_http 100) no_parse 100 indeed_request example_store)) = []
   \<and> jobListings (snd (apply_handler (builtin_services some_runtime accepting_http 100) no_parse 100 indeed_request example_store))
       = [stored_row, open_row]"
proof -
  have g: "getService (builtin_services some_runtime accepting_http 100) (b_platform indeed_request)
             = Adapter (IndeedService some_runtime accepting_http 100)"
    by (simp add: getService_def builtin_services_def indeed_request_def toLowerCase_examples)
  have a: "applyToJob (IndeedService some_runtime accepting_http 100) = None"
    by (simp add: IndeedService_def)
  have p: "b_platform indeed_request = ''Indeed''" by (simp add: indeed_request_def)
  have e: "applications example_store = []" "jobListings example_store = [stored_row, open_row]"
    by (simp_all add: example_store_def)
  from apply_unsupported [OF g a, of no_parse 100 example_store] example_validation(1) p e
  show ?thesis by auto
qed


lemma record_application_all:
  assumes "\<not> fails st (calls st)" "\<not> fails st (Suc (calls st))"
    "\<not> fails st (Suc (Suc (calls st)))" "\<not> fails st (Suc (Suc (Suc (calls st))))"
  shows "stats (snd (record_application now uid jobId jl result st)) = bump_stats uid (stats st)
       \<and> (\<exists>m. fst (record_application now uid jobId jl result st)
                = Inr \<lparr> status = 200, body = ApplySucceeded m (new_application now uid jl st) \<rparr>)"
  using assms
  by (simp add: record_application_def bind_io_def markJobListingAsApplied_def createApplication_def
      getUserStats_def updateUserStats_def return_io_def bump_stats_def
      storage_call_def Let_def mark_applied_def new_application_def split: option.splits)

lemma record_application_stats_frame:
  "stats (snd (record_application now uid jobId jl result st)) = stats st
   \<or> stats (snd (record_application now uid jobId jl result st)) = bump_stats uid (stats st)"
  by (simp add: record_application_def bind_io_def markJobListingAsApplied_def createApplication_def
      getUserStats_def updateUserStats_def return_io_def bump_stats_def
      storage_call_def Let_def split: option.splits)

lemma apply_handler_success_path:
  assumes "validation_passes JSON_parse req st c jl"
    and "getService services (b_platform req) = Adapter service" "applyToJob service = Some f"
    and "hasValidCredentials service c = Inr True"
    and "f c (l_externalId jl) (payload_of req) = Inr result" "success result"
  shows "apply_try services JSON_parse now req st
           = record_application now (b_userId req) (b_jobId req) jl result (st\<lparr> calls := Suc (Suc (calls st)) \<rparr>)"
  using apply_try_validated [OF assms(1)] invoke_success [OF assms(2-6)] by simp

text \<open>
  Claim C2, as the code has it. When the validating steps pass and the adapter reports
  success, the three recording writes are made one after the other inside one \<^verbatim>\<open>try\<close>. If
  the first (the flag) is rejected, nothing is written, no further storage call is made
  and the answer is 500. If the second (the application) is rejected, the listing stays
  flagged, nothing else is written and the answer is 500. If both succeed, the listing
  with the requested id is flagged and exactly one application row, with status "applied"
  and \<open>appliedAt = now\<close>, is appended, whether or not the stats step succeeds; and if no
  call is rejected the counter of the user's stats row is incremented and the answer
  is 200 with the new application.
\<close>

theorem apply_recording:
  assumes "validation_passes JSON_parse req st c jl"
    and "getService services (b_platform req) = Adapter service" and "applyToJob service = Some f"
    and "hasValidCredentials service c = Inr True"
    and "f c (l_externalId jl) (payload_of req) = Inr result" and "success result"
  shows "(fails st (calls st + 2) \<longrightarrow>
            fst (apply_handler services JSON_parse now req st)
              = \<lparr> status = 500, body = Message ''Failed to apply to job'' \<rparr>
          \<and> jobListings (snd (apply_handler services JSON_parse now req st)) = jobListings st
          \<and> applications (snd (apply_handler services JSON_parse now req st)) = applications st
          \<and> stats (snd (apply_handler services JSON_parse now req st)) = stats st
          \<and> calls (snd (apply_handler services JSON_parse now req st)) = calls st + 3)
       \<and> (\<not> fails st (calls st + 2) \<and> fails st (calls st + 3) \<longrightarrow>
            fst (apply_handler services JSON_parse now req st)
              = \<lparr> status = 500, body = Message ''Failed to apply to job'' \<rparr>
          \<and> jobListings (snd (apply_handler services JSON_parse now req st))
              = mark_applied (b_jobId req) (jobListings st)
          \<and> applications (snd (apply_handler services JSON_parse now req st)) = applications st
          \<and> stats (snd (apply_handler services JSON_parse now req st)) = stats st
          \<and> calls (snd (apply_handler services JSON_parse now req st)) = calls st + 4)
       \<and> (\<not> fails st (calls st + 2) \<and> \<not> fails st (calls st + 3) \<longrightarrow>
            jobListings (snd (apply_handler services JSON_parse now req st))
              = mark_applied (b_jobId req) (jobListings st)
          \<and> applications (snd (apply_handler services JSON_parse now req st))
              = applications st @ [new_application now (b_userId req) jl st]
          \<and> (stats (snd (apply_handler services JSON_parse now req st)) = stats st
             \<or> stats (snd (apply_handler services JSON_parse now req st))
                 = bump_stats (b_userId req) (stats st)))
       \<and> (\<not> fails st (calls st + 2) \<and> \<not> fails st (calls st + 3)
           \<and> \<not> fails st (calls st + 4) \<and> \<not> fails st (calls st + 5) \<longrightarrow>
            stats (snd (apply_handler services JSON_parse now req st)) = bump_stats (b_userId req) (stats st)
          \<and> (\<exists>m. fst (apply_handler services JSON_parse now req st)
                   = \<lparr> status = 200,
                       body = ApplySucceeded m (new_application now (b_userId req) jl st) \<rparr>))"
proof -
  let ?st2 = "st\<lparr> calls := Suc (Suc (calls st)) \<rparr>"
  let ?rec = "record_application now (b_userId req) (b_jobId req) jl result ?st2"
  have n: "calls st + 2 = Suc (Suc (calls st))" "calls st + 3 = Suc (Suc (Suc (calls st)))"
    "calls st + 4 = Suc (Suc (Suc (Suc (calls st))))" "calls st + 5 = Suc (Suc (Suc (Suc (Suc (calls st)))))"
    by simp_all
  have path: "apply_try services JSON_parse now req st = ?rec"
    by (rule apply_handler_success_path [OF assms])
  have s: "snd (apply_handler services JSON_parse now req st) = snd ?rec"
    by (simp add: apply_handler_snd path)
  have a: "fst (apply_handler services JSON_parse now req st)
              = \<lparr> status = 500, body = Message ''Failed to apply to job'' \<rparr>
          \<and> jobListings (snd ?rec) = jobListings st \<and> applications (snd ?rec) = applications st
          \<and> stats (snd ?rec) = stats st \<and> calls (snd ?rec) = calls st + 3"
    if "fails st (calls st + 2)"
    using that record_application_mark_fails [of ?st2 now "b_userId req" "b_jobId req" jl result]
    by (simp add: apply_handler_def path n)
  have b: "fst (apply_handler services JSON_parse now req st)
              = \<lparr> status = 500, body = Message ''Failed to apply to job'' \<rparr>
          \<and> jobListings (snd ?rec) = mark_applied (b_jobId req) (jobListings st)
          \<and> applications (snd ?rec) = applications st
          \<and> stats (snd ?rec) = stats st \<and> calls (snd ?rec) = calls st + 4"
    if "\<not> fails st (calls st + 2)" "fails st (calls st + 3)"
    using that record_application_create_fails [of ?st2 now "b_userId req" "b_jobId req" jl result]
    by (simp add: apply_handler_def path n)
  have c: "jobListings (snd ?rec) = mark_applied (b_jobId req) (jobListings st)
          \<and> applications (snd ?rec) = applications st @ [new_application now (b_userId req) jl st]
          \<and> (stats (snd ?rec) = stats st \<or> stats (snd ?rec) = bump_stats (b_userId req) (stats st))"
    if "\<not> fails st (calls st + 2)" "\<not> fails st (calls st + 3)"
    using that record_application_created [of ?st2 now "b_userId req" "b_jobId req" jl result]
      record_application_stats_frame [of now "b_userId req" "b_jobId req" jl result ?st2]
    by (simp add: n new_application_def)
  have d: "stats (snd ?rec) = bump_stats (b_userId req) (stats st)
          \<and> (\<exists>m. fst (apply_handler services JSON_parse now req st)
                   = \<lparr> status = 200,
                       body = ApplySucceeded m (new_application now (b_userId req) jl st) \<rparr>)"
    if "\<not> fails st (calls st + 2)" "\<not> fails st (calls st + 3)"
       "\<not> fails st (calls st + 4)" "\<not> fails st (calls st + 5)"
    using that record_application_all [of ?st2 now "b_userId req" "b_jobId req" jl result]
    by (auto simp: n new_application_def apply_handler_def path split: prod.splits)
  from a b c d show ?thesis unfolding s by blast
qed

lemma example_linkedin:
  "getService (builtin_services some_runtime accepting_http 100) (b_platform linkedin_request)
     = Adapter (LinkedInService some_runtime accepting_http 100)"
  "applyToJob (LinkedInService some_runtime accepting_http 100) = Some (LinkedIn_applyToJob some_runtime accepting_http 100)"
  "hasValidCredentials (LinkedInService some_runtime accepting_http 100)
     (with_userId (linkedinCredentials example_user) 1) = Inr True"
  "LinkedIn_applyToJob some_runtime accepting_http 100 (with_userId (linkedinCredentials example_user) 1)
     (l_externalId open_row) (payload_of linkedin_request)
     = Inr \<lparr> success = True, message = Some ''Application submitted'', applicationId = JStr ''A1'' \<rparr>"
  by (simp_all add: getService_def builtin_services_def linkedin_request_def toLowerCase_examples
      LinkedInService_def LinkedIn_hasValidCredentials_def with_userId_def example_user_def
      LinkedIn_applyToJob_def LinkedIn_applyToJob_try_def accepting_http_def js_gt_def)

theorem apply_recording_witness:
  "applications (snd (apply_handler (builtin_services some_runtime accepting_http 100) no_parse 100 linkedin_request example_store))
     = [new_application 100 1 open_row example_store]
   \<and> jobListings (snd (apply_handler (builtin_services some_runtime accepting_http 100) no_parse 100 linkedin_request example_store))
     = [stored_row, open_row\<lparr> l_applied := True \<rparr>]
   \<and> stats (snd (apply_handler (builtin_services some_runtime accepting_http 100) no_parse 100 linkedin_request example_store))
     = [\<lparr> s_id = 1, s_userId = 1, totalApplications = 4 \<rparr>]"
proof -
  have u: "b_userId linkedin_request = 1" "b_jobId linkedin_request = 2"
    by (simp_all add: linkedin_request_def)
  have nf: "\<And>n. \<not> fails example_store n" by (simp add: example_store_def)
  have e: "applications example_store = []"
    "mark_applied 2 (jobListings example_store) = [stored_row, open_row\<lparr> l_applied := True \<rparr>]"
    "bump_stats 1 (stats example_store) = [\<lparr> s_id = 1, s_userId = 1, totalApplications = 4 \<rparr>]"
    by (simp_all add: example_store_def mark_applied_def bump_stats_def stored_row_def open_row_def)
  from apply_recording [OF example_validation(2) example_linkedin(1,2,3,4), of 100] nf u e
  show ?thesis by simp
qed

text \<open>
  The claim as stated fails when the first write is rejected: the listing is not flagged,
  no application is created, the counter is not touched, and after the three storage
  calls made so far (user, listing, flag) no further call is attempted.
\<close>

theorem rejected_write_stops_recording:
  "fst (apply_handler (builtin_services some_runtime accepting_http 100) no_parse 100 linkedin_request
          (example_store\<lparr> fails := (\<lambda>n. n = 2) \<rparr>))
     = \<lparr> status = 500, body = Message ''Failed to apply to job'' \<rparr>
   \<and> applications (snd (apply_handler (builtin_services some_runtime accepting_http 100) no_parse 100 linkedin_request
          (example_store\<lparr> fails := (\<lambda>n. n = 2) \<rparr>))) = []
   \<and> stats (snd (apply_handler (builtin_services some_runtime accepting_http 100) no_parse 100 linkedin_request
          (example_store\<lparr> fails := (\<lambda>n. n = 2) \<rparr>))) = [\<lparr> s_id = 1, s_userId = 1, totalApplications = 3 \<rparr>]
   \<and> calls (snd (apply_handler (builtin_services some_runtime accepting_http 100) no_parse 100 linkedin_request
          (example_store\<lparr> fails := (\<lambda>n. n = 2) \<rparr>))) = 3"
proof -
  let ?st = "example_store\<lparr> fails := (\<lambda>n. n = 2) \<rparr>"
  have v: "validation_passes no_parse linkedin_request ?st
             (with_userId (linkedinCredentials example_user) 1) open_row"
    using example_validation(2) by (simp add: validation_passes_def example_store_def)
  have c: "calls ?st = 0" by (simp add: example_store_def)
  have "apply_try (builtin_services some_runtime accepting_http 100) no_parse 100 linkedin_request ?st
          = (Inl (Error ''storage failure''), ?st\<lparr> calls := 3 \<rparr>)"
    by (simp add: apply_handler_success_path [OF v example_linkedin(1,2,3,4)]
        record_application_mark_fails c)
  then show ?thesis
    by (simp add: apply_handler_def example_store_def)
qed

end
